theory Spec2Isabelle
  imports Main "HOL-Library.Word"
begin

unbundle bit_operations_syntax

section \<open>Shallow embedding of modules/highgui/src/window_wayland.cpp\<close>

type_synonym u8 = "8 word"
type_synonym u32 = "32 word"

subsection \<open>The type int\<close>

text \<open>
  A value of the 32-bit type \<^verbatim>\<open>int\<close> is an integer, and the result of an arithmetic
  operation on \<^verbatim>\<open>int\<close> is brought back into range modulo \<open>2 ^ 32\<close>, as the compiled
  code computes it (the language leaves signed overflow undefined).
\<close>

definition int32 :: "int \<Rightarrow> int" where
  "int32 v = (v + 2 ^ 31) mod 2 ^ 32 - 2 ^ 31"

subsection \<open>Errors\<close>

text \<open>
  A C++ exception is the left summand of a result.  \<open>Undefined\<close> stands for an execution
  that does not continue: behaviour the language leaves undefined (reading the front of
  an empty \<^verbatim>\<open>std::queue\<close>) or a library call that does not return.
\<close>

datatype error =
    RuntimeError string
  | SystemError string int
  | OutOfRange string
  | Undefined string

subsection \<open>Keyboard\<close>

text \<open>
  The xkbcommon functions that \<^verbatim>\<open>cv_wl_keyboard\<close> calls are not part of the repository;
  they are the fields of a parameter.  Pointers are natural numbers, \<open>None\<close> the null
  pointer.  \<open>xkb_state_key_get_one_sym\<close> takes the possibly null state pointer the
  code passes and answers \<open>None\<close> when the call does not return.
\<close>

record xkb_lib =
  xkb_keymap_new_from_string :: "string \<Rightarrow> nat option"
  xkb_state_new :: "nat \<Rightarrow> nat option"
  xkb_keymap_mod_get_index :: "nat \<Rightarrow> string \<Rightarrow> u32"
  xkb_state_key_get_one_sym :: "nat option \<Rightarrow> u32 \<Rightarrow> u32 option"

text \<open>Protocol constants of \<^verbatim>\<open>wayland-client-protocol.h\<close>.\<close>

definition WL_KEYBOARD_KEYMAP_FORMAT_NO_KEYMAP :: u32 where
  "WL_KEYBOARD_KEYMAP_FORMAT_NO_KEYMAP = 0"

definition WL_KEYBOARD_KEYMAP_FORMAT_XKB_V1 :: u32 where
  "WL_KEYBOARD_KEYMAP_FORMAT_XKB_V1 = 1"

definition WL_KEYBOARD_KEY_STATE_RELEASED :: u32 where
  "WL_KEYBOARD_KEY_STATE_RELEASED = 0"

definition WL_KEYBOARD_KEY_STATE_PRESSED :: u32 where
  "WL_KEYBOARD_KEY_STATE_PRESSED = 1"

text \<open>\<^verbatim>\<open>static_cast<uint8_t>(keysym)\<close>, returned as \<^verbatim>\<open>int\<close>.\<close>

definition xkb_keysym_to_ascii :: "u32 \<Rightarrow> int" where
  "xkb_keysym_to_ascii keysym = uint (ucast keysym :: u8)"

text \<open>\<^verbatim>\<open>raw_keycode + 8\<close>, converted to the unsigned 32-bit \<^verbatim>\<open>xkb_keycode_t\<close>.\<close>

definition xkb_keycode_from_raw_keycode :: "u32 \<Rightarrow> u32" where
  "xkb_keycode_from_raw_keycode raw_keycode = raw_keycode + 8"

text \<open>
  The members of \<^verbatim>\<open>cv_wl_keyboard\<close>: the anonymous struct \<^verbatim>\<open>xkb_\<close> flattened, and the
  \<^verbatim>\<open>std::queue<int>\<close> as a list with its front at the head and its back at the end.
  Member names lose their trailing underscore, which an Isabelle name cannot end with.
\<close>

record cv_wl_keyboard =
  xkb_ctx :: "nat option"
  xkb_keymap :: "nat option"
  xkb_state :: "nat option"
  control_mask :: u32
  alt_mask :: u32
  shift_mask :: u32
  key_queue :: "int list"

text \<open>
  The member initialisers and the constructor; \<open>ctx\<close> is what \<^verbatim>\<open>xkb_context_new\<close>
  returned.
\<close>

definition cv_wl_keyboard_init :: "nat option \<Rightarrow> cv_wl_keyboard" where
  "cv_wl_keyboard_init ctx =
     \<lparr>xkb_ctx = ctx, xkb_keymap = None, xkb_state = None,
      control_mask = 0, alt_mask = 0, shift_mask = 0, key_queue = []\<rparr>"

definition cv_wl_keyboard_new :: "nat option \<Rightarrow> error + cv_wl_keyboard" where
  "cv_wl_keyboard_new ctx =
     (let kb = cv_wl_keyboard_init ctx in
      if xkb_ctx kb = None then Inl (RuntimeError ''Failed to create xkb context'')
      else Inr kb)"

definition get_key :: "cv_wl_keyboard \<Rightarrow> int \<times> cv_wl_keyboard" where
  "get_key kb =
     (let key = (if key_queue kb \<noteq> [] then last (key_queue kb) else - 1)
      in (key, kb\<lparr>key_queue := []\<rparr>))"

text \<open>
  \<^verbatim>\<open>handle_kb_keymap\<close>; \<open>map_str\<close> is the mapped keymap text, \<open>None\<close> when \<^verbatim>\<open>mmap\<close>
  failed.  After a failed \<^verbatim>\<open>xkb_state_new\<close> the keymap is released but its pointer stays
  in the member.  \<^verbatim>\<open>1 << index\<close> is taken on 32 bits.
\<close>

definition handle_kb_keymap ::
    "xkb_lib \<Rightarrow> cv_wl_keyboard \<Rightarrow> u32 \<Rightarrow> string option \<Rightarrow> cv_wl_keyboard" where
  "handle_kb_keymap lib keyboard format map_str =
     (if format \<noteq> WL_KEYBOARD_KEYMAP_FORMAT_XKB_V1 then keyboard
      else (case map_str of
        None \<Rightarrow> keyboard
      | Some str \<Rightarrow>
         (let kb1 = keyboard\<lparr>xkb_keymap := xkb_keymap_new_from_string lib str\<rparr> in
          (case xkb_keymap kb1 of
            None \<Rightarrow> kb1
          | Some km \<Rightarrow>
             (let kb2 = kb1\<lparr>xkb_state := xkb_state_new lib km\<rparr> in
              (case xkb_state kb2 of
                None \<Rightarrow> kb2
              | Some st \<Rightarrow>
                  kb2\<lparr>control_mask :=
                         push_bit (unat (xkb_keymap_mod_get_index lib km ''Control'')) 1,
                      alt_mask :=
                         push_bit (unat (xkb_keymap_mod_get_index lib km ''Mod1'')) 1,
                      shift_mask :=
                         push_bit (unat (xkb_keymap_mod_get_index lib km ''Shift'')) 1\<rparr>))))))"

definition handle_kb_key ::
    "xkb_lib \<Rightarrow> cv_wl_keyboard \<Rightarrow> u32 \<Rightarrow> u32 \<Rightarrow> error + cv_wl_keyboard" where
  "handle_kb_key lib kb key state =
     (let keycode = xkb_keycode_from_raw_keycode key in
      if state = WL_KEYBOARD_KEY_STATE_RELEASED then
        (case xkb_state_key_get_one_sym lib (xkb_state kb) keycode of
          None \<Rightarrow> Inl (Undefined ''xkb_state_key_get_one_sym'')
        | Some keysym \<Rightarrow>
            Inr (kb\<lparr>key_queue := key_queue kb @ [xkb_keysym_to_ascii keysym]\<rparr>))
      else Inr kb)"

subsection \<open>Readiness multiplexer\<close>

text \<open>Constants of \<^verbatim>\<open>sys/epoll.h\<close> and \<^verbatim>\<open>errno.h\<close> on Linux.\<close>

definition EPOLLIN :: u32 where "EPOLLIN = 0x001"
definition EPOLLOUT :: u32 where "EPOLLOUT = 0x004"
definition EPOLLERR :: u32 where "EPOLLERR = 0x008"
definition EPOLLHUP :: u32 where "EPOLLHUP = 0x010"
definition EAGAIN :: int where "EAGAIN = 11"

datatype epoll_op = EPOLL_CTL_ADD | EPOLL_CTL_DEL | EPOLL_CTL_MOD

record epoll_event =
  events :: u32
  data_fd :: int

record epoller =
  epoll_fd :: int

text \<open>The constructor; the arguments are the result of \<^verbatim>\<open>epoll_create1\<close> and \<^verbatim>\<open>errno\<close>.\<close>

definition epoller_new :: "int \<Rightarrow> int \<Rightarrow> error + epoller" where
  "epoller_new fd errno =
     (if fd < 0 then Inl (SystemError ''Failed to create epoll fd: '' errno)
      else Inr \<lparr>epoll_fd = fd\<rparr>)"

text \<open>
  \<^verbatim>\<open>epoller::ctl\<close>.  The last argument is what the kernel answers to \<^verbatim>\<open>epoll_ctl\<close>: the
  return value and \<^verbatim>\<open>errno\<close>.
\<close>

definition ctl :: "epoller \<Rightarrow> epoll_op \<Rightarrow> int \<Rightarrow> u32 \<Rightarrow> int \<times> int \<Rightarrow> error + unit" where
  "ctl ep op fd evs os =
     (let event = \<lparr>events = evs, data_fd = fd\<rparr>;
          ret = fst os
      in if ret < 0 then Inl (SystemError ''epoll_ctl: '' (snd os)) else Inr ())"

definition add :: "epoller \<Rightarrow> int \<Rightarrow> u32 \<Rightarrow> int \<times> int \<Rightarrow> error + unit" where
  "add ep fd evs os = ctl ep EPOLL_CTL_ADD fd evs os"

definition modify :: "epoller \<Rightarrow> int \<Rightarrow> u32 \<Rightarrow> int \<times> int \<Rightarrow> error + unit" where
  "modify ep fd evs os = ctl ep EPOLL_CTL_MOD fd evs os"

definition remove :: "epoller \<Rightarrow> int \<Rightarrow> int \<times> int \<Rightarrow> error + unit" where
  "remove ep fd os = ctl ep EPOLL_CTL_DEL fd 0 os"

text \<open>
  What the kernel answers to \<^verbatim>\<open>epoll_wait\<close>: the return value, \<^verbatim>\<open>errno\<close>, and the ready
  events it reports.
\<close>

record epoll_wait_result =
  event_num :: int
  wait_errno :: int
  ready :: "epoll_event list"

text \<open>
  The kernel writes the ready events it counted at the front of the caller's array, and
  never beyond the array.
\<close>

definition epoll_wait_fill :: "epoll_event list \<Rightarrow> epoll_wait_result \<Rightarrow> epoll_event list" where
  "epoll_wait_fill buf os =
     (let k = min (nat (event_num os)) (min (length (ready os)) (length buf))
      in take k (ready os) @ drop k buf)"

text \<open>
  \<^verbatim>\<open>epoller::wait(timeout, max_events)\<close>: a vector of \<open>max_events\<close> value-initialised
  entries is handed to \<^verbatim>\<open>epoll_wait\<close> and returned as it is.
\<close>

definition wait ::
    "epoller \<Rightarrow> epoll_wait_result \<Rightarrow> int \<Rightarrow> nat \<Rightarrow> error + epoll_event list" where
  "wait ep os timeout max_events =
     (let evs = replicate max_events \<lparr>events = 0, data_fd = 0\<rparr>;
          evs = epoll_wait_fill evs os
      in if event_num os < 0 then Inl (SystemError ''epoll_wait: '' (wait_errno os))
         else Inr evs)"



subsection \<open>Shared-memory buffer\<close>

definition WL_SHM_FORMAT_XRGB8888 :: u32 where
  "WL_SHM_FORMAT_XRGB8888 = 1"

text \<open>
  \<^verbatim>\<open>cv_wl_buffer\<close>.  \<open>buffer\<close> is the \<^verbatim>\<open>wl_buffer\<close> pointer; \<open>shm_data\<close> is the mapped
  region in 32-bit cells, \<open>None\<close> for a null or failed mapping.  The members \<^verbatim>\<open>width_\<close>
  and \<^verbatim>\<open>height_\<close> are \<open>buf_width\<close> and \<open>buf_height\<close>, apart from the window's.
\<close>

record cv_wl_buffer =
  buffer :: "nat option"
  shm_data :: "u32 list option"
  busy :: bool
  buf_width :: int
  buf_height :: int
  shm_path :: string

definition cv_wl_buffer_new :: cv_wl_buffer where
  "cv_wl_buffer_new =
     \<lparr>buffer = None, shm_data = None, busy = False, buf_width = 0, buf_height = 0,
      shm_path = []\<rparr>"

definition destroy :: "cv_wl_buffer \<Rightarrow> cv_wl_buffer" where
  "destroy b = (if buffer b \<noteq> None then b\<lparr>buffer := None, buf_width := 0, buf_height := 0\<rparr> else b)"

text \<open>\<^verbatim>\<open>cv_wl_buffer::busy(bool)\<close>, the setter.\<close>

definition set_busy :: "cv_wl_buffer \<Rightarrow> bool \<Rightarrow> cv_wl_buffer" where
  "set_busy b v = b\<lparr>busy := v\<rparr>"

definition is_busy :: "cv_wl_buffer \<Rightarrow> bool" where
  "is_busy b = busy b"

definition handle_buffer_release :: "cv_wl_buffer \<Rightarrow> cv_wl_buffer" where
  "handle_buffer_release mybuf = set_busy mybuf False"

text \<open>\<^verbatim>\<open>std::to_string\<close> on an \<^verbatim>\<open>int\<close>: the decimal digits, after a minus sign if negative.\<close>

function digits :: "nat \<Rightarrow> string" where
  "digits n =
     (if n < 10 then [char_of (48 + n)] else digits (n div 10) @ [char_of (48 + n mod 10)])"
  by pat_completeness auto
termination
  by (relation "measure id") auto

declare digits.simps [simp del]

definition to_string :: "int \<Rightarrow> string" where
  "to_string n = (if n < 0 then CHR ''-'' # digits (nat (- n)) else digits (nat n))"

text \<open>
  What the operating system and the compositor answer during \<^verbatim>\<open>create_shm\<close>: the first
  failing call with its \<^verbatim>\<open>errno\<close>, or the new \<^verbatim>\<open>wl_buffer\<close> together with the cells
  that the shared-memory object of that name held before (\<^verbatim>\<open>shm_open\<close> opens an existing
  object as it is).
\<close>

datatype shm_result =
    Shm_ok nat "u32 list"
  | Shm_open_failed int
  | Ftruncate_failed int
  | Mmap_failed int

text \<open>
  \<^verbatim>\<open>create_shm\<close>, with the static counter \<^verbatim>\<open>number_\<close> passed in and out.  The object is
  returned also when the call throws, as the exception leaves it.  \<^verbatim>\<open>stride\<close>, \<^verbatim>\<open>size\<close>
  and the counter are of type \<^verbatim>\<open>int\<close>.  The mapping has \<open>size\<close> bytes, \<open>size / 4\<close> cells:
  the former contents of the object, cut or extended with zeros by \<^verbatim>\<open>ftruncate\<close>.
\<close>

definition create_shm ::
    "shm_result \<Rightarrow> int \<Rightarrow> cv_wl_buffer \<Rightarrow> int \<Rightarrow> int \<Rightarrow> u32
      \<Rightarrow> (error + int) \<times> cv_wl_buffer \<times> int" where
  "create_shm os number b w h format =
     (let stride = int32 (w * 4);
          size = int32 (stride * h);
          b1 = destroy b;
          b2 = b1\<lparr>buf_width := w, buf_height := h\<rparr>;
          b3 = b2\<lparr>shm_path := ''/opencv_wl_buffer-'' @ to_string number\<rparr>;
          number' = int32 (number + 1)
      in (case os of
            Shm_open_failed errno \<Rightarrow>
              (Inl (SystemError ''creating a buffer file failed: '' errno), b3, number')
          | Ftruncate_failed errno \<Rightarrow>
              (Inl (SystemError ''failed to truncate a shm buffer'' errno), b3, number')
          | Mmap_failed errno \<Rightarrow>
              (Inl (SystemError ''mmap failed: '' errno), b3\<lparr>shm_data := None\<rparr>, number')
          | Shm_ok wl_buf former \<Rightarrow>
              (Inr 0,
               b3\<lparr>shm_data :=
                     Some (take (nat (size div 4)) (former @ replicate (nat (size div 4)) 0)),
                   buffer := Some wl_buf\<rparr>, number')))"

text \<open>\<^verbatim>\<open>memset(p, 0xff, n)\<close> on a region of cells, \<open>n\<close> a multiple of 4 within the region.\<close>

definition memset_ff :: "u32 list option \<Rightarrow> int \<Rightarrow> error + u32 list" where
  "memset_ff p n =
     (case p of
        None \<Rightarrow> Inl (Undefined ''memset'')
      | Some d \<Rightarrow>
          if 0 \<le> n \<and> n mod 4 = 0 \<and> nat (n div 4) \<le> length d
          then Inr (replicate (nat (n div 4)) 0xFFFFFFFF @ drop (nat (n div 4)) d)
          else Inl (Undefined ''memset''))"

subsection \<open>Window\<close>

text \<open>Constants of \<^verbatim>\<open>opencv2/highgui.hpp\<close> and of \<^verbatim>\<open>cv_wl_mouse::button\<close>.\<close>

definition EVENT_MOUSEMOVE :: int where "EVENT_MOUSEMOVE = 0"
definition EVENT_LBUTTONDOWN :: int where "EVENT_LBUTTONDOWN = 1"
definition EVENT_RBUTTONDOWN :: int where "EVENT_RBUTTONDOWN = 2"
definition EVENT_MBUTTONDOWN :: int where "EVENT_MBUTTONDOWN = 3"
definition EVENT_LBUTTONUP :: int where "EVENT_LBUTTONUP = 4"
definition EVENT_RBUTTONUP :: int where "EVENT_RBUTTONUP = 5"
definition EVENT_MBUTTONUP :: int where "EVENT_MBUTTONUP = 6"
definition EVENT_FLAG_LBUTTON :: int where "EVENT_FLAG_LBUTTON = 1"
definition EVENT_FLAG_RBUTTON :: int where "EVENT_FLAG_RBUTTON = 2"
definition EVENT_FLAG_MBUTTON :: int where "EVENT_FLAG_MBUTTON = 4"

definition NONE :: u32 where "NONE = 0"
definition LBUTTON :: u32 where "LBUTTON = 272"
definition RBUTTON :: u32 where "RBUTTON = 273"
definition MBUTTON :: u32 where "MBUTTON = 274"

definition WL_POINTER_BUTTON_STATE_RELEASED :: u32 where
  "WL_POINTER_BUTTON_STATE_RELEASED = 0"

definition WL_POINTER_BUTTON_STATE_PRESSED :: u32 where
  "WL_POINTER_BUTTON_STATE_PRESSED = 1"

text \<open>
  The struct \<^verbatim>\<open>on_mouse_\<close>; \<open>callback\<close> is the function pointer and \<open>param\<close> the opaque
  pointer.  A call of the callback is recorded as the callback with its five arguments.
\<close>

record on_mouse_t =
  drag :: bool
  last_x :: int
  last_y :: int
  button :: u32
  callback :: "nat option"
  param :: nat

type_synonym mouse_call = "nat \<times> int \<times> int \<times> int \<times> int \<times> nat"

record cv_wl_window =
  flags :: int
  name :: string
  width :: int
  height :: int
  on_mouse :: on_mouse_t
  buffers :: "cv_wl_buffer \<times> cv_wl_buffer"

definition default_width :: int where "default_width = 320"
definition default_height :: int where "default_height = 240"

definition cv_wl_window_new :: "string \<Rightarrow> int \<Rightarrow> int \<Rightarrow> int \<Rightarrow> cv_wl_window" where
  "cv_wl_window_new nm w h fl =
     \<lparr>flags = fl, name = nm, width = w, height = h,
      on_mouse = \<lparr>drag = False, last_x = 0, last_y = 0, button = NONE,
                  callback = None, param = 0\<rparr>,
      buffers = (cv_wl_buffer_new, cv_wl_buffer_new)\<rparr>"

text \<open>
  \<^verbatim>\<open>buffers_[i]\<close> read and written: index 0 is the first buffer, and index 1 (as any
  other index) the second.
\<close>

definition buffers_at :: "cv_wl_window \<Rightarrow> nat \<Rightarrow> cv_wl_buffer" where
  "buffers_at w i = (if i = 0 then fst (buffers w) else snd (buffers w))"

definition buffers_upd :: "cv_wl_window \<Rightarrow> nat \<Rightarrow> cv_wl_buffer \<Rightarrow> cv_wl_window" where
  "buffers_upd w i b =
     (if i = 0 then w\<lparr>buffers := (b, snd (buffers w))\<rparr> else w\<lparr>buffers := (fst (buffers w), b)\<rparr>)"

subsection \<open>Pixel conversion\<close>

text \<open>
  The fields of \<^verbatim>\<open>CvMat\<close> read by the backend.  \<open>data_ptr\<close> is the byte region behind
  \<^verbatim>\<open>mat->data.ptr\<close>.  A read outside the region, undefined in C, is the value \<open>None\<close>.
\<close>

record CvMat =
  rows :: int
  cols :: int
  step :: int
  data_ptr :: "u8 list"

definition load8 :: "u8 list \<Rightarrow> int \<Rightarrow> u8 option" where
  "load8 mem i = (if 0 \<le> i \<and> i < int (length mem) then Some (mem ! nat i) else None)"

text \<open>
  The destination \<^verbatim>\<open>void *data\<close> is only ever written through \<^verbatim>\<open>uint32_t *\<close> at byte
  offsets that are multiples of 4, so it is a list of 32-bit cells; cell \<open>i\<close> is the
  four bytes at offset \<open>4 * i\<close>.  A store is addressed by its byte offset, and a
  store outside the region is the value \<open>None\<close>.
\<close>

definition store32 :: "u32 list \<Rightarrow> int \<Rightarrow> u32 \<Rightarrow> u32 list option" where
  "store32 mem off v =
     (if 0 \<le> off \<and> off mod 4 = 0 \<and> off div 4 < int (length mem)
      then Some (mem[nat (off div 4) := v]) else None)"

text \<open>\<^verbatim>\<open>((a << 24) | (r << 16) | (g << 8) | b)\<close>, converted to \<^verbatim>\<open>uint32_t\<close>.\<close>

definition argb8888 :: "u8 \<Rightarrow> u8 \<Rightarrow> u8 \<Rightarrow> u8 \<Rightarrow> u32" where
  "argb8888 a r g b =
     push_bit 24 (ucast a) OR push_bit 16 (ucast r) OR push_bit 8 (ucast g) OR ucast b"

text \<open>
  \<^verbatim>\<open>draw_argb8888(d, a, r, g, b)\<close>, the pointer \<open>d\<close> given as the region and the byte
  offset into it.
\<close>

definition draw_argb8888 :: "u32 list \<Rightarrow> int \<Rightarrow> u8 \<Rightarrow> u8 \<Rightarrow> u8 \<Rightarrow> u8 \<Rightarrow> u32 list option" where
  "draw_argb8888 d off a r g b = store32 d off (argb8888 a r g b)"

text \<open>
  The body of the inner loop of \<^verbatim>\<open>write_mat_to_xrgb8888\<close> at row \<open>y\<close>, column \<open>x\<close>.  The
  indices \<^verbatim>\<open>mat->step * y + x * 3\<close> and \<^verbatim>\<open>(y * mat->cols + x) * 4\<close> are computed in
  \<^verbatim>\<open>int\<close>.
\<close>

definition write_pixel :: "CvMat \<Rightarrow> nat \<Rightarrow> nat \<Rightarrow> u32 list \<Rightarrow> u32 list option" where
  "write_pixel mat y x d =
     (let i0 = int32 (int32 (step mat * int y) + int32 (int x * 3)) in
      case load8 (data_ptr mat) i0 of None \<Rightarrow> None | Some p0 \<Rightarrow>
     (case load8 (data_ptr mat) (int32 (i0 + 1)) of None \<Rightarrow> None | Some p1 \<Rightarrow>
     (case load8 (data_ptr mat) (int32 (i0 + 2)) of None \<Rightarrow> None | Some p2 \<Rightarrow>
      draw_argb8888 d (int32 (int32 (int32 (int y * cols mat) + int x) * 4)) 0 p2 p1 p0)))"

text \<open>\<^verbatim>\<open>for (int x = 0; x < mat->cols; x++)\<close>, the remaining columns as a list.\<close>

primrec write_row :: "CvMat \<Rightarrow> nat \<Rightarrow> nat list \<Rightarrow> u32 list \<Rightarrow> u32 list option" where
  "write_row mat y [] d = Some d"
| "write_row mat y (x # xs) d =
     (case write_pixel mat y x d of None \<Rightarrow> None | Some d' \<Rightarrow> write_row mat y xs d')"

text \<open>\<^verbatim>\<open>for (int y = 0; y < mat->rows; y++)\<close>, the remaining rows as a list.\<close>

primrec write_rows :: "CvMat \<Rightarrow> nat list \<Rightarrow> u32 list \<Rightarrow> u32 list option" where
  "write_rows mat [] d = Some d"
| "write_rows mat (y # ys) d =
     (case write_row mat y [0..<nat (cols mat)] d of None \<Rightarrow> None
      | Some d' \<Rightarrow> write_rows mat ys d')"

definition write_mat_to_xrgb8888 :: "CvMat \<Rightarrow> u32 list \<Rightarrow> u32 list option" where
  "write_mat_to_xrgb8888 mat d = write_rows mat [0..<nat (rows mat)] d"

text \<open>
  The inputs on which the conversion stays inside both regions and inside \<^verbatim>\<open>int\<close>: a
  non-negative geometry in fields of type \<^verbatim>\<open>int\<close>; when there is a pixel, source bytes up to the end of the last
  row that is read, \<open>step * (rows - 1) + cols * 3\<close>, which also covers a region of
  interest whose last row ends the parent image; and \<open>rows * cols\<close> destination cells.
\<close>

definition mat_fits :: "CvMat \<Rightarrow> u32 list \<Rightarrow> bool" where
  "mat_fits mat d \<longleftrightarrow>
     0 \<le> rows mat \<and> rows mat < 2 ^ 31 \<and> 0 \<le> cols mat \<and> cols mat < 2 ^ 31 \<and>
     0 \<le> step mat \<and> step mat < 2 ^ 31 \<and>
     (0 < rows mat \<and> 0 < cols mat \<longrightarrow>
        step mat * (rows mat - 1) + cols mat * 3 \<le> int (length (data_ptr mat)) \<and>
        step mat * (rows mat - 1) + cols mat * 3 \<le> 2 ^ 31) \<and>
     rows mat * cols mat \<le> int (length d) \<and>
     rows mat * cols mat * 4 \<le> 2 ^ 31"

text \<open>The cell that the loop body computes for the source pixel at row \<open>y\<close>, column \<open>x\<close>.\<close>

definition src_pixel :: "CvMat \<Rightarrow> nat \<Rightarrow> nat \<Rightarrow> u32" where
  "src_pixel mat y x = argb8888 0
      (data_ptr mat ! (nat (step mat) * y + x * 3 + 2))
      (data_ptr mat ! (nat (step mat) * y + x * 3 + 1))
      (data_ptr mat ! (nat (step mat) * y + x * 3))"

subsection \<open>Buffer selection and image display\<close>

text \<open>
  \<^verbatim>\<open>display_->roundtrip()\<close> as \<^verbatim>\<open>next_buffer\<close> sees it: the compositor's release
  notifications that arrive during the round trip, by buffer index, each handled by
  \<^verbatim>\<open>handle_buffer_release\<close>; an index above 1 is a buffer of another window.
\<close>

definition roundtrip :: "nat list \<Rightarrow> cv_wl_window \<Rightarrow> cv_wl_window" where
  "roundtrip released w =
     fold (\<lambda>i w'. if i \<le> 1 then buffers_upd w' i (handle_buffer_release (buffers_at w' i))
                     else w') released w"

text \<open>
  The \<^verbatim>\<open>while (!buffer)\<close> loop.  The list holds the release notifications of each
  successive round trip; when it is used up the compositor stays silent and the loop
  has not returned: \<open>None\<close>.
\<close>

primrec wait_free_buffer :: "nat list list \<Rightarrow> cv_wl_window \<Rightarrow> (nat \<times> cv_wl_window) option" where
  "wait_free_buffer [] w = None"
| "wait_free_buffer (released # rest) w =
     (let w' = roundtrip released w in
      if \<not> is_busy (buffers_at w' 0) then Some (0, w')
      else if \<not> is_busy (buffers_at w' 1) then Some (1, w')
      else wait_free_buffer rest w')"

text \<open>
  \<^verbatim>\<open>next_buffer\<close>: the index of the chosen buffer, the window and the counter
  \<^verbatim>\<open>number_\<close>.  The length \<^verbatim>\<open>width_ * height_ * 4\<close> of the \<^verbatim>\<open>memset\<close> is computed in
  \<^verbatim>\<open>int\<close>; a negative length, converted to \<^verbatim>\<open>size_t\<close>, is beyond every region.
\<close>

definition next_buffer ::
    "nat list list \<Rightarrow> shm_result \<Rightarrow> int \<Rightarrow> cv_wl_window
      \<Rightarrow> ((error + nat) \<times> cv_wl_window \<times> int) option" where
  "next_buffer trips os number w =
     (case wait_free_buffer trips w of
        None \<Rightarrow> None
      | Some (i, w1) \<Rightarrow>
         (let b = buffers_at w1 i in
          if buffer b = None \<or> buf_width b \<noteq> width w1 \<or> buf_height b \<noteq> height w1 then
            (case create_shm os number b (width w1) (height w1) WL_SHM_FORMAT_XRGB8888 of
               (Inl e, b', number') \<Rightarrow> Some (Inl e, buffers_upd w1 i b', number')
             | (Inr ret, b', number') \<Rightarrow>
                 if ret < 0
                 then Some (Inl (RuntimeError ''cannot create shm buffer''),
                            buffers_upd w1 i b', number')
                 else (case memset_ff (shm_data b')
                               (int32 (int32 (width w1 * height w1) * 4)) of
                         Inl e \<Rightarrow> Some (Inl e, buffers_upd w1 i b', number')
                       | Inr d \<Rightarrow>
                           Some (Inr i, buffers_upd w1 i (b'\<lparr>shm_data := Some d\<rparr>), number')))
          else Some (Inr i, w1, number)))"

text \<open>
  \<^verbatim>\<open>show_image\<close>; attaching, damaging and committing the surface are requests to the
  compositor and leave the window object as it is.
\<close>

definition show_image ::
    "nat list list \<Rightarrow> shm_result \<Rightarrow> int \<Rightarrow> cv_wl_window \<Rightarrow> CvMat
      \<Rightarrow> ((error + unit) \<times> cv_wl_window \<times> int) option" where
  "show_image trips os number w mat =
     (let w0 = w\<lparr>width := cols mat, height := rows mat\<rparr> in
      case next_buffer trips os number w0 of
        None \<Rightarrow> None
      | Some (Inl e, w1, number') \<Rightarrow> Some (Inl e, w1, number')
      | Some (Inr i, w1, number') \<Rightarrow>
         (case shm_data (buffers_at w1 i) of
            None \<Rightarrow> Some (Inl (Undefined ''write_mat_to_xrgb8888''), w1, number')
          | Some d \<Rightarrow>
             (case write_mat_to_xrgb8888 mat d of
                None \<Rightarrow> Some (Inl (Undefined ''write_mat_to_xrgb8888''), w1, number')
              | Some d' \<Rightarrow>
                  Some (Inr (),
                        buffers_upd w1 i (set_busy ((buffers_at w1 i)\<lparr>shm_data := Some d'\<rparr>) True),
                        number'))))"

subsection \<open>Mouse events of a window\<close>

definition set_mouse_callback :: "cv_wl_window \<Rightarrow> nat option \<Rightarrow> nat \<Rightarrow> cv_wl_window" where
  "set_mouse_callback w f p = w\<lparr>on_mouse := (on_mouse w)\<lparr>callback := f, param := p\<rparr>\<rparr>"

definition call_mouse_callback :: "cv_wl_window \<Rightarrow> int \<Rightarrow> int \<Rightarrow> int \<Rightarrow> int \<Rightarrow> mouse_call list" where
  "call_mouse_callback w event x y flag =
     (case callback (on_mouse w) of
        None \<Rightarrow> []
      | Some f \<Rightarrow> [(f, event, x, y, flag, param (on_mouse w))])"

definition mouse_enter :: "cv_wl_window \<Rightarrow> int \<Rightarrow> int \<Rightarrow> cv_wl_window \<times> mouse_call list" where
  "mouse_enter w x y =
     (let w' = w\<lparr>on_mouse := (on_mouse w)\<lparr>last_x := x, last_y := y\<rparr>\<rparr>
      in (w', call_mouse_callback w' EVENT_MOUSEMOVE x y 0))"

definition mouse_leave :: "cv_wl_window \<Rightarrow> cv_wl_window" where
  "mouse_leave w = w"

definition mouse_motion ::
    "cv_wl_window \<Rightarrow> u32 \<Rightarrow> int \<Rightarrow> int \<Rightarrow> cv_wl_window \<times> mouse_call list" where
  "mouse_motion w time x y =
     (let w' = w\<lparr>on_mouse := (on_mouse w)\<lparr>last_x := x, last_y := y\<rparr>\<rparr>;
          flag =
            (if drag (on_mouse w') then
               (if button (on_mouse w') = LBUTTON then EVENT_FLAG_LBUTTON
                else if button (on_mouse w') = RBUTTON then EVENT_FLAG_RBUTTON
                else if button (on_mouse w') = MBUTTON then EVENT_FLAG_MBUTTON
                else 0)
             else 0)
      in (w', call_mouse_callback w' EVENT_MOUSEMOVE x y flag))"

definition mouse_button ::
    "cv_wl_window \<Rightarrow> u32 \<Rightarrow> u32 \<Rightarrow> u32 \<Rightarrow> cv_wl_window \<times> mouse_call list" where
  "mouse_button w time btn state =
     (let w' = w\<lparr>on_mouse := (on_mouse w)\<lparr>button := btn,
                   drag := (state = WL_POINTER_BUTTON_STATE_PRESSED)\<rparr>\<rparr>;
          d = drag (on_mouse w');
          (event, flag) =
            (if btn = LBUTTON then
               (if d then EVENT_LBUTTONDOWN else EVENT_LBUTTONUP, EVENT_FLAG_LBUTTON)
             else if btn = RBUTTON then
               (if d then EVENT_RBUTTONDOWN else EVENT_RBUTTONUP, EVENT_FLAG_RBUTTON)
             else if btn = MBUTTON then
               (if d then EVENT_MBUTTONDOWN else EVENT_MBUTTONUP, EVENT_FLAG_MBUTTON)
             else (0, 0))
      in (w', call_mouse_callback w' event (last_x (on_mouse w')) (last_y (on_mouse w')) flag))"

subsection \<open>Mouse\<close>

text \<open>
  \<^verbatim>\<open>cv_wl_mouse\<close> keeps raw \<^verbatim>\<open>cv_wl_window *\<close> in a \<^verbatim>\<open>std::queue\<close>: \<^verbatim>\<open>push\<close> appends at the
  back, \<^verbatim>\<open>front\<close> reads the head and \<^verbatim>\<open>pop\<close> removes the head.  The windows live in a
  store from addresses to objects.  The surface of an event is given by the window its
  user data points to.  \<open>x\<close> and \<open>y\<close> are the coordinates after \<^verbatim>\<open>wl_fixed_to_int\<close>.
  The handlers answer the mouse, the store and the callback calls they made.
\<close>

record cv_wl_mouse =
  entered_window :: "nat list"

type_synonym window_store = "nat \<rightharpoonup> cv_wl_window"

definition cv_wl_mouse_new :: cv_wl_mouse where
  "cv_wl_mouse_new = \<lparr>entered_window = []\<rparr>"

definition handle_pointer_enter ::
    "cv_wl_mouse \<Rightarrow> window_store \<Rightarrow> nat \<Rightarrow> int \<Rightarrow> int
      \<Rightarrow> error + (cv_wl_mouse \<times> window_store \<times> mouse_call list)" where
  "handle_pointer_enter mouse store window x y =
     (let mouse' = mouse\<lparr>entered_window := entered_window mouse @ [window]\<rparr> in
      case store window of
        None \<Rightarrow> Inl (Undefined ''window'')
      | Some w \<Rightarrow>
         (let (w', calls) = mouse_enter w x y in Inr (mouse', store(window \<mapsto> w'), calls)))"

definition handle_pointer_leave ::
    "cv_wl_mouse \<Rightarrow> window_store \<Rightarrow> nat
      \<Rightarrow> error + (cv_wl_mouse \<times> window_store \<times> mouse_call list)" where
  "handle_pointer_leave mouse store window =
     (case store window of
        None \<Rightarrow> Inl (Undefined ''window'')
      | Some w \<Rightarrow>
         (let store' = store(window \<mapsto> mouse_leave w) in
          case entered_window mouse of
            [] \<Rightarrow> Inl (Undefined ''pop'')
          | front # rest \<Rightarrow> Inr (mouse\<lparr>entered_window := rest\<rparr>, store', [])))"

definition handle_pointer_motion ::
    "cv_wl_mouse \<Rightarrow> window_store \<Rightarrow> u32 \<Rightarrow> int \<Rightarrow> int
      \<Rightarrow> error + (cv_wl_mouse \<times> window_store \<times> mouse_call list)" where
  "handle_pointer_motion mouse store time x y =
     (case entered_window mouse of
        [] \<Rightarrow> Inl (Undefined ''front'')
      | window # rest \<Rightarrow>
         (case store window of
            None \<Rightarrow> Inl (Undefined ''window'')
          | Some w \<Rightarrow>
             (let (w', calls) = mouse_motion w time x y
              in Inr (mouse, store(window \<mapsto> w'), calls))))"

definition handle_pointer_button ::
    "cv_wl_mouse \<Rightarrow> window_store \<Rightarrow> u32 \<Rightarrow> u32 \<Rightarrow> u32
      \<Rightarrow> error + (cv_wl_mouse \<times> window_store \<times> mouse_call list)" where
  "handle_pointer_button mouse store time btn state =
     (case entered_window mouse of
        [] \<Rightarrow> Inl (Undefined ''front'')
      | window # rest \<Rightarrow>
         (case store window of
            None \<Rightarrow> Inl (Undefined ''window'')
          | Some w \<Rightarrow>
             (let (w', calls) = mouse_button w time btn state
              in Inr (mouse, store(window \<mapsto> w'), calls))))"

subsection \<open>Input seat and display connection\<close>

record cv_wl_input =
  mouse :: "cv_wl_mouse option"
  keyboard :: "cv_wl_keyboard option"


text \<open>
  The members of \<^verbatim>\<open>cv_wl_display\<close> that the event loop uses.  \<open>display_fd\<close> is
  \<^verbatim>\<open>wl_display_get_fd(display_)\<close>.  \<^verbatim>\<open>init\<close> throws unless \<^verbatim>\<open>input_\<close> is set, so a
  constructed display has an input seat.
\<close>

record cv_wl_display =
  poller :: epoller
  display_fd :: int
  input :: cv_wl_input
  formats :: u32

text \<open>
  The protocol events that reach the keyboard's listener.  Events for other objects
  (pointer, buffer, surface, shell) run handlers that touch neither the keyboard nor the
  poller; they are \<open>Other_event\<close>.
\<close>

datatype wl_event =
    Keymap_event u32 "string option"
  | Key_event u32 u32
  | Other_event

definition dispatch_event :: "xkb_lib \<Rightarrow> wl_event \<Rightarrow> cv_wl_display \<Rightarrow> error + cv_wl_display" where
  "dispatch_event lib ev d =
     (case keyboard (input d) of
        None \<Rightarrow> Inr d
      | Some kb \<Rightarrow>
         (case ev of
            Keymap_event format map_str \<Rightarrow>
              Inr (d\<lparr>input := (input d)\<lparr>keyboard := Some (handle_kb_keymap lib kb format map_str)\<rparr>\<rparr>)
          | Key_event key state \<Rightarrow>
             (case handle_kb_key lib kb key state of
                Inl e \<Rightarrow> Inl e
              | Inr kb' \<Rightarrow> Inr (d\<lparr>input := (input d)\<lparr>keyboard := Some kb'\<rparr>\<rparr>))
          | Other_event \<Rightarrow> Inr d))"

primrec dispatch_events :: "xkb_lib \<Rightarrow> wl_event list \<Rightarrow> cv_wl_display \<Rightarrow> error + cv_wl_display" where
  "dispatch_events lib [] d = Inr d"
| "dispatch_events lib (ev # evs) d =
     (case dispatch_event lib ev d of Inl e \<Rightarrow> Inl e | Inr d' \<Rightarrow> dispatch_events lib evs d')"

text \<open>
  What the connection and the kernel do during one call of \<^verbatim>\<open>run_once\<close>: the events
  that \<^verbatim>\<open>dispatch_pending\<close> finds queued, the result and \<^verbatim>\<open>errno\<close> of the first flush, the
  answers to the calls of \<^verbatim>\<open>epoll_ctl\<close> and \<^verbatim>\<open>epoll_wait\<close>, the events that \<^verbatim>\<open>dispatch\<close>
  reads, and the result of the second flush.
\<close>

record tick =
  pending :: "wl_event list"
  flush_ret :: int
  flush_errno :: int
  modify_os :: "int \<times> int"
  wait_os :: epoll_wait_result
  arriving :: "wl_event list"
  flush2_ret :: int
  modify2_os :: "int \<times> int"

text \<open>The calls that \<^verbatim>\<open>run_once\<close> makes, in order, with the arguments that matter.\<close>

datatype call =
    Dispatch_pending
  | Flush
  | Modify int u32
  | Wait int
  | Dispatch

text \<open>
  The part of \<^verbatim>\<open>run_once\<close> from \<^verbatim>\<open>poller_.wait(timeout)\<close> on; \<open>tr\<close> are the calls made so
  far.  The result is \<^verbatim>\<open>events[0].events\<close>, kept as the 32-bit value.
\<close>

definition run_once_wait ::
    "xkb_lib \<Rightarrow> tick \<Rightarrow> int \<Rightarrow> cv_wl_display \<Rightarrow> call list
      \<Rightarrow> (error + u32) \<times> cv_wl_display \<times> call list" where
  "run_once_wait lib t timeout d tr =
     (case wait (poller d) (wait_os t) timeout 16 of
        Inl e \<Rightarrow> (Inl e, d, tr @ [Wait timeout])
      | Inr evs \<Rightarrow>
          if evs = [] then (Inr 0, d, tr @ [Wait timeout])
          else
           (let ev0 = events (hd evs);
                tr1 = tr @ [Wait timeout];
                r1 = (if ev0 AND EPOLLIN \<noteq> 0
                      then (dispatch_events lib (arriving t) d, tr1 @ [Dispatch])
                      else (Inr d, tr1))
            in case r1 of
                 (Inl e, tr2) \<Rightarrow> (Inl e, d, tr2)
               | (Inr d2, tr2) \<Rightarrow>
                   if ev0 AND EPOLLOUT \<noteq> 0 then
                     (let ret = flush2_ret t in
                      if ret = 0 then
                        (case modify (poller d2) (display_fd d2)
                                (EPOLLIN OR EPOLLERR OR EPOLLHUP) (modify2_os t) of
                           Inl e \<Rightarrow>
                             (Inl e, d2, tr2 @ [Flush,
                                Modify (display_fd d2) (EPOLLIN OR EPOLLERR OR EPOLLHUP)])
                         | Inr u \<Rightarrow>
                             (Inr ev0, d2, tr2 @ [Flush,
                                Modify (display_fd d2) (EPOLLIN OR EPOLLERR OR EPOLLHUP)]))
                      else (Inr ev0, d2, tr2 @ [Flush]))
                   else (Inr ev0, d2, tr2)))"

definition run_once ::
    "xkb_lib \<Rightarrow> tick \<Rightarrow> int \<Rightarrow> cv_wl_display \<Rightarrow> (error + u32) \<times> cv_wl_display \<times> call list" where
  "run_once lib t timeout d =
     (case dispatch_events lib (pending t) d of
        Inl e \<Rightarrow> (Inl e, d, [Dispatch_pending])
      | Inr d1 \<Rightarrow>
         (let ret = flush_ret t in
          if ret < 0 \<and> flush_errno t = EAGAIN then
            (case modify (poller d1) (display_fd d1)
                    (EPOLLIN OR EPOLLOUT OR EPOLLERR OR EPOLLHUP) (modify_os t) of
               Inl e \<Rightarrow>
                 (Inl e, d1, [Dispatch_pending, Flush,
                    Modify (display_fd d1) (EPOLLIN OR EPOLLOUT OR EPOLLERR OR EPOLLHUP)])
             | Inr u \<Rightarrow>
                 run_once_wait lib t timeout d1 [Dispatch_pending, Flush,
                    Modify (display_fd d1) (EPOLLIN OR EPOLLOUT OR EPOLLERR OR EPOLLHUP)])
          else if ret < 0 then (Inr 0, d1, [Dispatch_pending, Flush])
          else run_once_wait lib t timeout d1 [Dispatch_pending, Flush]))"

subsection \<open>Waiting for a key\<close>



subsection \<open>Core registry\<close>

text \<open>
  \<^verbatim>\<open>cv_wl_core\<close>: \<^verbatim>\<open>windows_\<close> maps a name to a shared pointer, here the address of the
  window with the object it owns; \<^verbatim>\<open>handles_\<close> maps a native handle, the address of a
  window, to a name.
\<close>

record cv_wl_core =
  windows :: "string \<rightharpoonup> nat \<times> cv_wl_window"
  handles :: "nat \<rightharpoonup> string"

definition cv_wl_core_new :: cv_wl_core where
  "cv_wl_core_new = \<lparr>windows = Map.empty, handles = Map.empty\<rparr>"

definition get_window :: "cv_wl_core \<Rightarrow> string \<Rightarrow> error + nat \<times> cv_wl_window" where
  "get_window core nm =
     (case windows core nm of None \<Rightarrow> Inl (OutOfRange ''map::at'') | Some w \<Rightarrow> Inr w)"

definition get_window_handle :: "cv_wl_core \<Rightarrow> string \<Rightarrow> error + nat" where
  "get_window_handle core nm =
     (case get_window core nm of Inl e \<Rightarrow> Inl e | Inr w \<Rightarrow> Inr (fst w))"

text \<open>\<^verbatim>\<open>handles_[handle]\<close>: \<^verbatim>\<open>operator[]\<close> inserts an empty string for a missing key.\<close>

definition get_window_name :: "cv_wl_core \<Rightarrow> nat \<Rightarrow> string \<times> cv_wl_core" where
  "get_window_name core handle =
     (case handles core handle of
        None \<Rightarrow> ([], core\<lparr>handles := (handles core)(handle \<mapsto> [])\<rparr>)
      | Some nm \<Rightarrow> (nm, core))"

text \<open>
  \<^verbatim>\<open>create_window\<close>; \<open>addr\<close> is the address at which \<^verbatim>\<open>make_shared\<close> places the new
  window.  \<^verbatim>\<open>insert\<close> keeps an entry that is already there.
\<close>

definition create_window :: "cv_wl_core \<Rightarrow> nat \<Rightarrow> string \<Rightarrow> int \<Rightarrow> bool \<times> cv_wl_core" where
  "create_window core addr nm fl =
     (let window = (addr, cv_wl_window_new nm default_width default_height fl);
          inserted = (windows core nm = None);
          windows' = (if inserted then (windows core)(nm \<mapsto> window) else windows core);
          handles' = (handles core)(fst window \<mapsto> name (snd window))
      in (inserted, core\<lparr>windows := windows', handles := handles'\<rparr>))"

definition destroy_window :: "cv_wl_core \<Rightarrow> string \<Rightarrow> bool \<times> cv_wl_core" where
  "destroy_window core nm =
     (windows core nm \<noteq> None, core\<lparr>windows := (windows core)(nm := None)\<rparr>)"

definition destroy_all_windows :: "cv_wl_core \<Rightarrow> cv_wl_core" where
  "destroy_all_windows core = core\<lparr>windows := Map.empty\<rparr>"

text \<open>The entry points \<^verbatim>\<open>cvGetWindowName\<close>, \<^verbatim>\<open>cvDestroyWindow\<close> and \<^verbatim>\<open>cvDestroyAllWindows\<close>.\<close>

definition cvGetWindowName :: "cv_wl_core \<Rightarrow> nat \<Rightarrow> string \<times> cv_wl_core" where
  "cvGetWindowName g_core window_handle = get_window_name g_core window_handle"

definition cvDestroyWindow :: "cv_wl_core \<Rightarrow> string \<Rightarrow> cv_wl_core" where
  "cvDestroyWindow g_core nm = snd (destroy_window g_core nm)"

definition cvDestroyAllWindows :: "cv_wl_core \<Rightarrow> cv_wl_core" where
  "cvDestroyAllWindows g_core = destroy_all_windows g_core"

subsection \<open>Pointer listener\<close>

text \<open>
  The events of \<^verbatim>\<open>pointer_listener_\<close> that have a handler with an effect, and the
  delivery of a sequence of them, collecting the callback calls.
\<close>

datatype pointer_event =
    Enter nat int int
  | Leave nat
  | Motion u32 int int
  | Button u32 u32 u32

fun handle_pointer_event ::
    "pointer_event \<Rightarrow> cv_wl_mouse \<Rightarrow> window_store
      \<Rightarrow> error + (cv_wl_mouse \<times> window_store \<times> mouse_call list)" where
  "handle_pointer_event (Enter window x y) m s = handle_pointer_enter m s window x y"
| "handle_pointer_event (Leave window) m s = handle_pointer_leave m s window"
| "handle_pointer_event (Motion time x y) m s = handle_pointer_motion m s time x y"
| "handle_pointer_event (Button time btn state) m s = handle_pointer_button m s time btn state"

primrec dispatch_pointer_events ::
    "pointer_event list \<Rightarrow> cv_wl_mouse \<times> window_store \<times> mouse_call list
      \<Rightarrow> error + (cv_wl_mouse \<times> window_store \<times> mouse_call list)" where
  "dispatch_pointer_events [] st = Inr st"
| "dispatch_pointer_events (ev # evs) st =
     (case st of (m, s, calls) \<Rightarrow>
        (case handle_pointer_event ev m s of
           Inl e \<Rightarrow> Inl e
         | Inr (m', s', calls') \<Rightarrow> dispatch_pointer_events evs (m', s', calls @ calls')))"

subsection \<open>Concrete inputs\<close>

text \<open>A keyboard library that translates under any non-null state, and a keyboard with a layout.\<close>

definition demo_lib :: xkb_lib where
  "demo_lib =
     \<lparr>xkb_keymap_new_from_string = (\<lambda>s. Some 1),
      xkb_state_new = (\<lambda>k. Some 2),
      xkb_keymap_mod_get_index = (\<lambda>k n. 0),
      xkb_state_key_get_one_sym =
        (\<lambda>st kc. case st of None \<Rightarrow> None | Some p \<Rightarrow> Some (kc + 0xFF00))\<rparr>"

definition demo_kb :: cv_wl_keyboard where
  "demo_kb =
     \<lparr>xkb_ctx = Some 1, xkb_keymap = Some 1, xkb_state = Some 2,
      control_mask = 1, alt_mask = 1, shift_mask = 1, key_queue = []\<rparr>"

text \<open>A 2x1 window whose first buffer is with the compositor and whose second is free.\<close>

definition demo_busy_window :: cv_wl_window where
  "demo_busy_window =
     (cv_wl_window_new ''w'' 2 1 0)
       \<lparr>buffers :=
          (\<lparr>buffer = Some 5, shm_data = Some [1, 2], busy = True, buf_width = 2, buf_height = 1,
            shm_path = ''/opencv_wl_buffer-0''\<rparr>,
           \<lparr>buffer = Some 6, shm_data = Some [3, 4], busy = False, buf_width = 2, buf_height = 1,
            shm_path = ''/opencv_wl_buffer-1''\<rparr>)\<rparr>"

text \<open>
  Two windows, A at address 1 with callback 100 and parameter 11, B at address 2 with
  callback 200 and parameter 22.
\<close>

definition demo_store :: window_store where
  "demo_store =
     [1 \<mapsto> set_mouse_callback (cv_wl_window_new ''A'' default_width default_height 0) (Some 100) 11,
      2 \<mapsto> set_mouse_callback (cv_wl_window_new ''B'' default_width default_height 0) (Some 200) 22]"

text \<open>
  A display with the keyboard above, and one call of \<^verbatim>\<open>run_once\<close> during which the flush
  succeeds, the descriptor becomes readable and the release of key 30 is read.
\<close>

definition demo_display :: cv_wl_display where
  "demo_display =
     \<lparr>poller = \<lparr>epoll_fd = 4\<rparr>, display_fd = 3,
      input = \<lparr>mouse = None, keyboard = Some demo_kb\<rparr>, formats = 2\<rparr>"

definition demo_tick :: tick where
  "demo_tick =
     \<lparr>pending = [], flush_ret = 0, flush_errno = 0, modify_os = (0, 0),
      wait_os = \<lparr>event_num = 1, wait_errno = 0, ready = [\<lparr>events = EPOLLIN, data_fd = 3\<rparr>]\<rparr>,
      arriving = [Key_event 30 WL_KEYBOARD_KEY_STATE_RELEASED],
      flush2_ret = 0, modify2_os = (0, 0)\<rparr>"



section \<open>Properties\<close>

subsection \<open>Pixel conversion\<close>

lemma write_row_append:
  "write_row mat y (xs @ ys) d =
     (case write_row mat y xs d of None \<Rightarrow> None | Some d' \<Rightarrow> write_row mat y ys d')"
  by (induction xs arbitrary: d) (auto split: option.splits)

lemma write_rows_append:
  "write_rows mat (xs @ ys) d =
     (case write_rows mat xs d of None \<Rightarrow> None | Some d' \<Rightarrow> write_rows mat ys d')"
  by (induction xs arbitrary: d) (auto split: option.splits)

lemma int32_id: "- (2 ^ 31) \<le> v \<Longrightarrow> v < 2 ^ 31 \<Longrightarrow> int32 v = v"
  by (simp add: int32_def)

lemma int32_mod: "int32 v mod 2 ^ 32 = v mod 2 ^ 32"
proof -
  have "((v + 2 ^ 31) mod 2 ^ 32 - 2 ^ 31) mod 2 ^ 32 = (v + 2 ^ 31 - 2 ^ 31) mod (2 ^ 32 :: int)"
    by (rule mod_diff_left_eq)
  then show ?thesis by (simp add: int32_def)
qed

lemma int32_cong: "a mod 2 ^ 32 = b mod 2 ^ 32 \<Longrightarrow> int32 a = int32 b"
proof -
  assume "a mod 2 ^ 32 = b mod 2 ^ 32"
  then have "(a + 2 ^ 31) mod 2 ^ 32 = (b + 2 ^ 31) mod (2 ^ 32 :: int)"
    by (rule mod_add_cong) simp
  then show ?thesis by (simp add: int32_def)
qed

lemma int32_mult_left: "int32 (int32 a * b) = int32 (a * b)"
  by (rule int32_cong, rule mod_mult_cong, rule int32_mod, rule refl)

lemma src_in_range:
  assumes "mat_fits mat d" and "y < nat (rows mat)" and "x < nat (cols mat)" and "k < 3"
  shows "0 \<le> step mat * int y + int x * 3 + int k"
    and "step mat * int y + int x * 3 + int k < int (length (data_ptr mat))"
    and "step mat * int y + int x * 3 + int k < 2 ^ 31"
    and "nat (step mat * int y + int x * 3 + int k) = nat (step mat) * y + x * 3 + k"
proof -
  from assms have s: "0 \<le> step mat" and c: "int x * 3 + int k < cols mat * 3"
    and r: "int y \<le> rows mat - 1"
    and l: "step mat * (rows mat - 1) + cols mat * 3 \<le> int (length (data_ptr mat))"
    and m: "step mat * (rows mat - 1) + cols mat * 3 \<le> 2 ^ 31"
    by (auto simp: mat_fits_def)
  show "0 \<le> step mat * int y + int x * 3 + int k" using s by simp
  have t: "step mat * int y \<le> step mat * (rows mat - 1)"
    using r s by (rule mult_left_mono)
  show "step mat * int y + int x * 3 + int k < int (length (data_ptr mat))"
    using t c l by linarith
  show "step mat * int y + int x * 3 + int k < 2 ^ 31"
    using t c m by linarith
  show "nat (step mat * int y + int x * 3 + int k) = nat (step mat) * y + x * 3 + k"
    using s by (simp add: nat_add_distrib nat_mult_distrib)
qed

lemma dst_in_range:
  assumes "mat_fits mat d" and "y < nat (rows mat)" and "x < nat (cols mat)"
  shows "y * nat (cols mat) + x < length d"
    and "int (y * nat (cols mat) + x) * 4 < 2 ^ 31"
proof -
  from assms have "Suc y \<le> nat (rows mat)" by simp
  then have "Suc y * nat (cols mat) \<le> nat (rows mat) * nat (cols mat)"
    by (rule mult_le_mono1)
  then have a: "y * nat (cols mat) + x < nat (rows mat) * nat (cols mat)"
    using assms(3) by simp
  have e: "int (nat (rows mat) * nat (cols mat)) = rows mat * cols mat"
    using assms(1) by (simp add: mat_fits_def)
  have "rows mat * cols mat \<le> int (length d)" "rows mat * cols mat * 4 \<le> 2 ^ 31"
    using assms(1) by (simp_all add: mat_fits_def)
  with e have b: "nat (rows mat) * nat (cols mat) \<le> length d"
    and c: "int (nat (rows mat) * nat (cols mat)) * 4 \<le> 2 ^ 31"
    by linarith+
  from a b show "y * nat (cols mat) + x < length d" by simp
  from a have "int (y * nat (cols mat) + x) < int (nat (rows mat) * nat (cols mat))"
    by (simp only: of_nat_less_iff)
  with c show "int (y * nat (cols mat) + x) * 4 < 2 ^ 31"
    by (simp del: of_nat_mult of_nat_add)
qed

lemma write_pixel_ok:
  assumes "mat_fits mat d" and "y < nat (rows mat)" and "x < nat (cols mat)"
  shows "write_pixel mat y x d = Some (d[y * nat (cols mat) + x := src_pixel mat y x])"
proof -
  note r = src_in_range[OF assms]
  from assms(1) have s: "0 \<le> step mat" and c: "0 \<le> cols mat"
    by (simp_all add: mat_fits_def)
  have p: "0 \<le> step mat * int y" "0 \<le> int x * 3"
    using s by simp_all
  with r(3)[of 0] have "step mat * int y < 2 ^ 31" "int x * 3 < 2 ^ 31"
    by linarith+
  with p have i0: "int32 (int32 (step mat * int y) + int32 (int x * 3))
      = step mat * int y + int x * 3"
    using r(1,3)[of 0] by (simp add: int32_id)
  have i1: "int32 (step mat * int y + int x * 3 + 1) = step mat * int y + int x * 3 + 1"
    using r(1,3)[of 1] by (simp add: int32_id)
  have i2: "int32 (step mat * int y + int x * 3 + 2) = step mat * int y + int x * 3 + 2"
    using r(1,3)[of 2] by (simp add: int32_id)
  define n where "n = y * nat (cols mat) + x"
  have i: "int y * cols mat + int x = int n"
    using c by (simp add: n_def)
  have q: "0 \<le> int y * cols mat" "0 \<le> int x" "0 \<le> int n"
    using c by simp_all
  have n4: "int n * 4 < 2 ^ 31"
    using dst_in_range(2)[OF assms] by (simp only: n_def)
  have j1: "int32 (int y * cols mat) = int y * cols mat"
    using q i n4 by (intro int32_id) linarith+
  have j2: "int32 (int y * cols mat + int x) = int n"
    unfolding i using q n4 by (intro int32_id) linarith+
  have j3: "int32 (int n * 4) = int n * 4"
    using q n4 by (intro int32_id) linarith+
  have "int32 (int32 (int32 (int y * cols mat) + int x) * 4) = int n * 4"
    by (simp only: j1 j2 j3)
  then have j: "int32 (int32 (int32 (int y * cols mat) + int x) * 4)
      = int (y * nat (cols mat) + x) * 4"
    by (simp only: n_def)
  have 0: "load8 (data_ptr mat) (step mat * int y + int x * 3)
          = Some (data_ptr mat ! (nat (step mat) * y + x * 3))"
    using r[of 0] by (simp add: load8_def)
  have 1: "load8 (data_ptr mat) (step mat * int y + int x * 3 + 1)
          = Some (data_ptr mat ! (nat (step mat) * y + x * 3 + 1))"
    using r[of 1] by (simp add: load8_def)
  have 2: "load8 (data_ptr mat) (step mat * int y + int x * 3 + 2)
          = Some (data_ptr mat ! (nat (step mat) * y + x * 3 + 2))"
    using r[of 2] by (simp add: load8_def)
  have 3: "draw_argb8888 d (int (y * nat (cols mat) + x) * 4) a r g b
          = Some (d[y * nat (cols mat) + x := argb8888 a r g b])" for a r g b
    unfolding draw_argb8888_def store32_def
    using dst_in_range(1)[OF assms] by (simp del: of_nat_add of_nat_mult)
  show ?thesis
    unfolding write_pixel_def Let_def i0 i1 i2 j 0 1 2 3 src_pixel_def by simp
qed

lemma write_row_prefix:
  assumes "mat_fits mat d" and "y < nat (rows mat)"
  shows "n \<le> nat (cols mat) \<Longrightarrow>
    \<exists>d'. write_row mat y [0..<n] d = Some d' \<and> length d' = length d \<and>
      (\<forall>i<length d. d' ! i =
         (if y * nat (cols mat) \<le> i \<and> i < y * nat (cols mat) + n
          then src_pixel mat y (i - y * nat (cols mat)) else d ! i))"
proof (induction n)
  case 0
  then show ?case by auto
next
  case (Suc n)
  then obtain d1 where d1: "write_row mat y [0..<n] d = Some d1" "length d1 = length d"
    and c1: "\<forall>i<length d. d1 ! i =
         (if y * nat (cols mat) \<le> i \<and> i < y * nat (cols mat) + n
          then src_pixel mat y (i - y * nat (cols mat)) else d ! i)"
    by auto
  from Suc.prems have n: "n < nat (cols mat)" by simp
  have "mat_fits mat d1" using assms(1) d1(2) by (simp add: mat_fits_def)
  from write_pixel_ok[OF this assms(2) n]
  have w: "write_pixel mat y n d1 = Some (d1[y * nat (cols mat) + n := src_pixel mat y n])" .
  have "write_row mat y [0..<Suc n] d = Some (d1[y * nat (cols mat) + n := src_pixel mat y n])"
    by (simp add: write_row_append d1 w)
  moreover have "(d1[y * nat (cols mat) + n := src_pixel mat y n]) ! i =
         (if y * nat (cols mat) \<le> i \<and> i < y * nat (cols mat) + Suc n
          then src_pixel mat y (i - y * nat (cols mat)) else d ! i)" if "i < length d" for i
  proof (cases "i = y * nat (cols mat) + n")
    case True
    then show ?thesis using that d1(2) by simp
  next
    case False
    then have "(d1[y * nat (cols mat) + n := src_pixel mat y n]) ! i = d1 ! i" by simp
    also have "\<dots> = (if y * nat (cols mat) \<le> i \<and> i < y * nat (cols mat) + n
          then src_pixel mat y (i - y * nat (cols mat)) else d ! i)"
      using c1 that by blast
    also have "\<dots> = (if y * nat (cols mat) \<le> i \<and> i < y * nat (cols mat) + Suc n
          then src_pixel mat y (i - y * nat (cols mat)) else d ! i)"
      using False by auto
    finally show ?thesis .
  qed
  ultimately show ?case using d1(2) by simp
qed

lemma write_rows_prefix:
  assumes "mat_fits mat d"
  shows "k \<le> nat (rows mat) \<Longrightarrow>
    \<exists>d'. write_rows mat [0..<k] d = Some d' \<and> length d' = length d \<and>
      (\<forall>i<length d. d' ! i =
         (if i < k * nat (cols mat)
          then src_pixel mat (i div nat (cols mat)) (i mod nat (cols mat)) else d ! i))"
proof (induction k)
  case 0
  then show ?case by simp
next
  case (Suc k)
  let ?W = "nat (cols mat)"
  from Suc obtain d1 where d1: "write_rows mat [0..<k] d = Some d1" "length d1 = length d"
    and c1: "\<forall>i<length d. d1 ! i =
         (if i < k * ?W then src_pixel mat (i div ?W) (i mod ?W) else d ! i)"
    by auto
  from Suc.prems have k: "k < nat (rows mat)" by simp
  have "mat_fits mat d1" using assms(1) d1(2) by (simp add: mat_fits_def)
  from write_row_prefix[OF this k order_refl]
  obtain d2 where d2: "write_row mat k [0..<?W] d1 = Some d2" "length d2 = length d1"
    and c2: "\<forall>i<length d1. d2 ! i =
         (if k * ?W \<le> i \<and> i < k * ?W + ?W then src_pixel mat k (i - k * ?W) else d1 ! i)"
    by blast
  have "write_rows mat [0..<Suc k] d = Some d2"
    by (simp add: write_rows_append d1 d2)
  moreover have "d2 ! i = (if i < Suc k * ?W then src_pixel mat (i div ?W) (i mod ?W) else d ! i)"
    if "i < length d" for i
  proof (cases "k * ?W \<le> i \<and> i < k * ?W + ?W")
    case True
    define j where "j = i - k * ?W"
    with True have j: "i = k * ?W + j" "j < ?W" by auto
    have "d2 ! i = src_pixel mat k (i - k * ?W)"
      using c2 that d1(2) True by auto
    moreover have "i div ?W = k" "i mod ?W = j" "i - k * ?W = j" using j by simp_all
    ultimately show ?thesis using True by simp
  next
    case False
    have "d2 ! i = d1 ! i" using c2 that d1(2) False by auto
    also have "\<dots> = (if i < k * ?W then src_pixel mat (i div ?W) (i mod ?W) else d ! i)"
      using c1 that by blast
    also have "\<dots> = (if i < Suc k * ?W then src_pixel mat (i div ?W) (i mod ?W) else d ! i)"
      using False by auto
    finally show ?thesis .
  qed
  ultimately show ?case using d1(2) d2(2) by simp
qed


text \<open>
  C1.  For a source image of 3 interleaved 8-bit channels in row-major order with row
  stride \<open>step\<close>, whose rows that are read lie in the source region and whose offsets
  are within \<^verbatim>\<open>int\<close>, the conversion run by \<^verbatim>\<open>show_image\<close> completes and writes, for
  every source pixel with channel bytes (B, G, R), the device cell
  \<open>(0 << 24) | (R << 16) | (G << 8) | B\<close>: alpha 0 and the three channel values
  unchanged.  The 1x1 pixel (10, 20, 30) becomes \<open>0x001E140A\<close>, and a region of
  interest of two rows in a wider image is converted row by row (see the witness).
\<close>

theorem write_mat_to_xrgb8888_reorder:
  assumes "mat_fits mat d"
  shows "\<exists>d'. write_mat_to_xrgb8888 mat d = Some d' \<and> length d' = length d \<and>
    (\<forall>y<nat (rows mat). \<forall>x<nat (cols mat).
       d' ! (y * nat (cols mat) + x) =
         push_bit 24 (ucast (0 :: u8)) OR
         push_bit 16 (ucast (data_ptr mat ! (nat (step mat) * y + x * 3 + 2))) OR
         push_bit 8 (ucast (data_ptr mat ! (nat (step mat) * y + x * 3 + 1))) OR
         ucast (data_ptr mat ! (nat (step mat) * y + x * 3)))"
proof -
  let ?W = "nat (cols mat)"
  from write_rows_prefix[OF assms order_refl]
  obtain d' where d': "write_rows mat [0..<nat (rows mat)] d = Some d'" "length d' = length d"
    and c: "\<forall>i<length d. d' ! i =
         (if i < nat (rows mat) * ?W then src_pixel mat (i div ?W) (i mod ?W) else d ! i)"
    by blast
  have "d' ! (y * ?W + x) = src_pixel mat y x" if "y < nat (rows mat)" "x < ?W" for y x
  proof -
    have "y * ?W + x < length d" using dst_in_range(1)[OF assms that] .
    moreover have "y * ?W + x < nat (rows mat) * ?W"
    proof -
      have "Suc y * ?W \<le> nat (rows mat) * ?W" using that(1) by (intro mult_le_mono1) simp
      then show ?thesis using that(2) by simp
    qed
    ultimately show ?thesis using c that(2) by simp
  qed
  then show ?thesis
    using d' by (simp add: write_mat_to_xrgb8888_def src_pixel_def argb8888_def)
qed

theorem write_mat_to_xrgb8888_reorder_witness:
  "mat_fits \<lparr>rows = 1, cols = 1, step = 3, data_ptr = [10, 20, 30]\<rparr> [0xFFFFFFFF] \<and>
   write_mat_to_xrgb8888 \<lparr>rows = 1, cols = 1, step = 3, data_ptr = [10, 20, 30]\<rparr> [0xFFFFFFFF]
     = Some [0x001E140A] \<and>
   mat_fits \<lparr>rows = 2, cols = 1, step = 6, data_ptr = [1, 2, 3, 0, 0, 0, 4, 5, 6]\<rparr> [0, 0] \<and>
   write_mat_to_xrgb8888
       \<lparr>rows = 2, cols = 1, step = 6, data_ptr = [1, 2, 3, 0, 0, 0, 4, 5, 6]\<rparr> [0, 0]
     = Some [0x030201, 0x060504]"
proof -
  let ?m = "\<lparr>rows = 1, cols = 1, step = 3, data_ptr = [10, 20, 30]\<rparr>"
  let ?roi = "\<lparr>rows = 2, cols = 1, step = 6, data_ptr = [1, 2, 3, 0, 0, 0, 4, 5, 6]\<rparr>"
  have f: "mat_fits ?m [0xFFFFFFFF]"
    by (simp add: mat_fits_def)
  from write_mat_to_xrgb8888_reorder [OF f]
  obtain d' where d': "write_mat_to_xrgb8888 ?m [0xFFFFFFFF] = Some d'"
      "length d' = 1" "d' ! 0 = 0x001E140A"
    by auto
  from d'(2,3) have 1: "d' = [0x001E140A]"
    by (cases d') auto
  have g: "mat_fits ?roi [0, 0]"
    by (simp add: mat_fits_def)
  from write_mat_to_xrgb8888_reorder [OF g]
  obtain e' where e': "write_mat_to_xrgb8888 ?roi [0, 0] = Some e'" "length e' = 2"
    and p: "\<forall>y<nat (rows ?roi). \<forall>x<nat (cols ?roi). e' ! (y * nat (cols ?roi) + x) =
         push_bit 24 (ucast (0 :: u8)) OR
         push_bit 16 (ucast (data_ptr ?roi ! (nat (step ?roi) * y + x * 3 + 2))) OR
         push_bit 8 (ucast (data_ptr ?roi ! (nat (step ?roi) * y + x * 3 + 1))) OR
         ucast (data_ptr ?roi ! (nat (step ?roi) * y + x * 3))"
    by auto
  from p[rule_format, of 0 0] have e0: "e' ! 0 = 0x030201" by simp
  from p[rule_format, of 1 0] have e1: "e' ! 1 = 0x060504" by simp
  from e'(2) obtain a b where "e' = [a, b]"
    by (cases e'; cases "tl e'") auto
  with e0 e1 have 2: "e' = [0x030201, 0x060504]" by simp
  from f g d'(1) e'(1) 1 2 show ?thesis by simp
qed

subsection \<open>Keyboard\<close>

lemma get_key_eq:
  "get_key kb = (if key_queue kb = [] then - 1 else last (key_queue kb), kb\<lparr>key_queue := []\<rparr>)"
  by (simp add: get_key_def)

lemma handle_kb_key_not_released:
  "state \<noteq> WL_KEYBOARD_KEY_STATE_RELEASED \<Longrightarrow> handle_kb_key lib kb key state = Inr kb"
  by (simp add: handle_kb_key_def)

lemma handle_kb_key_released:
  "handle_kb_key lib kb key WL_KEYBOARD_KEY_STATE_RELEASED =
     (case xkb_state_key_get_one_sym lib (xkb_state kb) (key + 8) of
        None \<Rightarrow> Inl (Undefined ''xkb_state_key_get_one_sym'')
      | Some keysym \<Rightarrow> Inr (kb\<lparr>key_queue := key_queue kb @ [xkb_keysym_to_ascii keysym]\<rparr>))"
  by (simp add: handle_kb_key_def xkb_keycode_from_raw_keycode_def)

lemma xkb_keysym_to_ascii_range: "0 \<le> xkb_keysym_to_ascii keysym \<and> xkb_keysym_to_ascii keysym < 256"
proof -
  have "uint (ucast keysym :: u8) < 2 ^ LENGTH(8)"
    by (rule uint_bounded)
  then show ?thesis by (simp add: xkb_keysym_to_ascii_def)
qed

text \<open>
  C2.  A key event in a state other than released leaves the keyboard as it is; a release
  event whose translation returns appends the low 8 bits of the key symbol at the back
  of the queue.  \<open>get_key\<close> answers the back of the queue, or -1 for an empty queue, and
  leaves the queue empty in every case, so the call after it answers -1; on a keyboard
  with nothing queued both of two consecutive calls answer -1.  After the releases of
  two keys with codes A and then B, the first call answers B and the second -1.
\<close>

theorem keyboard_release_only_most_recent_wins:
  "(state \<noteq> WL_KEYBOARD_KEY_STATE_RELEASED \<longrightarrow> handle_kb_key lib kb key state = Inr kb) \<and>
   (xkb_state_key_get_one_sym lib (xkb_state kb) (key + 8) = Some keysym \<longrightarrow>
      handle_kb_key lib kb key WL_KEYBOARD_KEY_STATE_RELEASED
        = Inr (kb\<lparr>key_queue := key_queue kb @ [xkb_keysym_to_ascii keysym]\<rparr>)) \<and>
   get_key kb = (if key_queue kb = [] then - 1 else last (key_queue kb), kb\<lparr>key_queue := []\<rparr>) \<and>
   key_queue (snd (get_key kb)) = [] \<and>
   fst (get_key (snd (get_key kb))) = - 1 \<and>
   (key_queue kb = [] \<longrightarrow> fst (get_key kb) = - 1 \<and> fst (get_key (snd (get_key kb))) = - 1) \<and>
   (xkb_state_key_get_one_sym lib (xkb_state kb) (keyA + 8) = Some symA \<and>
    xkb_state_key_get_one_sym lib (xkb_state kb) (keyB + 8) = Some symB \<longrightarrow>
      (\<exists>kb1 kb2.
         handle_kb_key lib kb keyA WL_KEYBOARD_KEY_STATE_RELEASED = Inr kb1 \<and>
         handle_kb_key lib kb1 keyB WL_KEYBOARD_KEY_STATE_RELEASED = Inr kb2 \<and>
         key_queue kb2 = key_queue kb @ [xkb_keysym_to_ascii symA, xkb_keysym_to_ascii symB] \<and>
         fst (get_key kb2) = xkb_keysym_to_ascii symB \<and>
         fst (get_key (snd (get_key kb2))) = - 1))"
  by (simp add: handle_kb_key_not_released handle_kb_key_released get_key_eq)

theorem keyboard_release_only_most_recent_wins_witness:
  "handle_kb_key demo_lib demo_kb 30 WL_KEYBOARD_KEY_STATE_PRESSED = Inr demo_kb \<and>
   handle_kb_key demo_lib demo_kb 30 WL_KEYBOARD_KEY_STATE_RELEASED = Inr (demo_kb\<lparr>key_queue := [38]\<rparr>) \<and>
   fst (get_key demo_kb) = - 1 \<and>
   fst (get_key (snd (get_key demo_kb))) = - 1 \<and>
   (\<exists>kb1 kb2.
      handle_kb_key demo_lib demo_kb 30 WL_KEYBOARD_KEY_STATE_RELEASED = Inr kb1 \<and>
      handle_kb_key demo_lib kb1 31 WL_KEYBOARD_KEY_STATE_RELEASED = Inr kb2 \<and>
      key_queue kb2 = [38, 39] \<and>
      fst (get_key kb2) = 39 \<and> fst (get_key (snd (get_key kb2))) = - 1)"
proof -
  have p: "WL_KEYBOARD_KEY_STATE_PRESSED \<noteq> WL_KEYBOARD_KEY_STATE_RELEASED"
    by (simp add: WL_KEYBOARD_KEY_STATE_PRESSED_def WL_KEYBOARD_KEY_STATE_RELEASED_def)
  have a: "xkb_state_key_get_one_sym demo_lib (xkb_state demo_kb) (30 + 8) = Some 0xFF26"
    and b: "xkb_state_key_get_one_sym demo_lib (xkb_state demo_kb) (31 + 8) = Some 0xFF27"
    by (simp_all add: demo_lib_def demo_kb_def)
  have q: "key_queue demo_kb = []"
    by (simp add: demo_kb_def)
  have c: "xkb_keysym_to_ascii 0xFF26 = 38" "xkb_keysym_to_ascii 0xFF27 = 39"
    by (simp_all add: xkb_keysym_to_ascii_def)
  note t = keyboard_release_only_most_recent_wins
     [of WL_KEYBOARD_KEY_STATE_PRESSED demo_lib demo_kb 30 "0xFF26" 30 "0xFF26" 31 "0xFF27"]
  from p a b t show ?thesis
    by (auto simp: c q)
qed

lemma handle_kb_key_null_state:
  "xkb_state kb = None \<Longrightarrow>
   handle_kb_key lib kb key WL_KEYBOARD_KEY_STATE_RELEASED =
     (case xkb_state_key_get_one_sym lib None (key + 8) of
        None \<Rightarrow> Inl (Undefined ''xkb_state_key_get_one_sym'')
      | Some keysym \<Rightarrow> Inr (kb\<lparr>key_queue := key_queue kb @ [xkb_keysym_to_ascii keysym]\<rparr>))"
  by (simp add: handle_kb_key_released)

text \<open>
  C8.  On a new keyboard each of the three failures of keymap processing (a format other
  than XKB_V1, a keymap that does not compile, a state that cannot be created) leaves the
  state pointer null.  The release event that follows is not inert: the handler passes
  the null state to \<open>xkb_state_key_get_one_sym\<close>, and either that call does not return,
  or the low 8 bits of what it returns are queued and \<open>get_key\<close> answers that code,
  which is not -1.
\<close>

theorem keymap_failure_release_not_inert:
  "xkb_state (handle_kb_keymap lib (cv_wl_keyboard_init ctx)
      WL_KEYBOARD_KEYMAP_FORMAT_NO_KEYMAP blob) = None \<and>
   xkb_state (handle_kb_keymap (lib\<lparr>xkb_keymap_new_from_string := (\<lambda>s. None)\<rparr>)
      (cv_wl_keyboard_init ctx) WL_KEYBOARD_KEYMAP_FORMAT_XKB_V1 (Some str)) = None \<and>
   xkb_state (handle_kb_keymap
      (lib\<lparr>xkb_keymap_new_from_string := (\<lambda>s. Some km), xkb_state_new := (\<lambda>k. None)\<rparr>)
      (cv_wl_keyboard_init ctx) WL_KEYBOARD_KEYMAP_FORMAT_XKB_V1 (Some str)) = None \<and>
   handle_kb_key lib
      (handle_kb_keymap lib (cv_wl_keyboard_init ctx) WL_KEYBOARD_KEYMAP_FORMAT_NO_KEYMAP blob)
      key WL_KEYBOARD_KEY_STATE_RELEASED =
     (case xkb_state_key_get_one_sym lib None (key + 8) of
        None \<Rightarrow> Inl (Undefined ''xkb_state_key_get_one_sym'')
      | Some keysym \<Rightarrow>
          Inr ((cv_wl_keyboard_init ctx)\<lparr>key_queue := [xkb_keysym_to_ascii keysym]\<rparr>)) \<and>
   fst (get_key ((cv_wl_keyboard_init ctx)\<lparr>key_queue := [xkb_keysym_to_ascii keysym]\<rparr>))
     = xkb_keysym_to_ascii keysym \<and>
   0 \<le> xkb_keysym_to_ascii keysym"
proof -
  have f: "handle_kb_keymap lib (cv_wl_keyboard_init ctx) WL_KEYBOARD_KEYMAP_FORMAT_NO_KEYMAP blob
      = cv_wl_keyboard_init ctx"
    by (simp add: handle_kb_keymap_def WL_KEYBOARD_KEYMAP_FORMAT_NO_KEYMAP_def
        WL_KEYBOARD_KEYMAP_FORMAT_XKB_V1_def)
  have n: "xkb_state (cv_wl_keyboard_init ctx) = None" "key_queue (cv_wl_keyboard_init ctx) = []"
    by (simp_all add: cv_wl_keyboard_init_def)
  have 1: "xkb_state (handle_kb_keymap (lib\<lparr>xkb_keymap_new_from_string := (\<lambda>s. None)\<rparr>)
      (cv_wl_keyboard_init ctx) WL_KEYBOARD_KEYMAP_FORMAT_XKB_V1 (Some str)) = None"
    by (simp add: handle_kb_keymap_def n)
  have 2: "xkb_state (handle_kb_keymap
      (lib\<lparr>xkb_keymap_new_from_string := (\<lambda>s. Some km), xkb_state_new := (\<lambda>k. None)\<rparr>)
      (cv_wl_keyboard_init ctx) WL_KEYBOARD_KEYMAP_FORMAT_XKB_V1 (Some str)) = None"
    by (simp add: handle_kb_keymap_def n)
  have 3: "handle_kb_key lib (cv_wl_keyboard_init ctx) key WL_KEYBOARD_KEY_STATE_RELEASED =
     (case xkb_state_key_get_one_sym lib None (key + 8) of
        None \<Rightarrow> Inl (Undefined ''xkb_state_key_get_one_sym'')
      | Some keysym \<Rightarrow>
          Inr ((cv_wl_keyboard_init ctx)\<lparr>key_queue := [xkb_keysym_to_ascii keysym]\<rparr>))"
    by (simp add: handle_kb_key_null_state n split: option.splits)
  have 4: "fst (get_key ((cv_wl_keyboard_init ctx)\<lparr>key_queue := [xkb_keysym_to_ascii keysym]\<rparr>))
     = xkb_keysym_to_ascii keysym"
    by (simp add: get_key_eq)
  from 1 2 3 4 xkb_keysym_to_ascii_range[of keysym] show ?thesis
    unfolding f by (simp add: n)
qed

subsection \<open>Buffer selection\<close>

lemma roundtrip_Cons:
  "roundtrip (i # released) w =
     roundtrip released
       (if i \<le> 1 then buffers_upd w i (handle_buffer_release (buffers_at w i)) else w)"
  by (simp add: roundtrip_def)

lemma roundtrip_buffers:
  "roundtrip released w =
     w\<lparr>buffers :=
         (if 0 \<in> set released then (fst (buffers w))\<lparr>busy := False\<rparr> else fst (buffers w),
          if 1 \<in> set released then (snd (buffers w))\<lparr>busy := False\<rparr> else snd (buffers w))\<rparr>"
proof (induction released arbitrary: w)
  case Nil
  then show ?case by (simp add: roundtrip_def)
next
  case (Cons i released)
  consider "i = 0" | "i = 1" | "1 < i" by linarith
  then show ?case
  proof cases
    case 1
    then show ?thesis
      unfolding roundtrip_Cons Cons.IH
      by (simp add: buffers_upd_def buffers_at_def handle_buffer_release_def set_busy_def)
  next
    case 2
    then show ?thesis
      unfolding roundtrip_Cons Cons.IH
      by (simp add: buffers_upd_def buffers_at_def handle_buffer_release_def set_busy_def)
  next
    case 3
    then show ?thesis
      unfolding roundtrip_Cons Cons.IH by simp
  qed
qed

lemma create_shm_ok:
  assumes "0 \<le> wd" "0 \<le> ht" "wd * ht * 4 < 2 ^ 31"
  shows "create_shm (Shm_ok h former) number b wd ht format =
     (Inr 0, \<lparr>buffer = Some h,
              shm_data = Some (take (nat (wd * ht)) (former @ replicate (nat (wd * ht)) 0)),
              busy = busy b, buf_width = wd, buf_height = ht,
              shm_path = ''/opencv_wl_buffer-'' @ to_string number\<rparr>, int32 (number + 1))"
proof -
  have "0 \<le> wd * ht" using assms(1,2) by simp
  then have "int32 (wd * 4 * ht) = wd * 4 * ht"
    using assms(3) by (intro int32_id) linarith+
  then have "int32 (int32 (wd * 4) * ht) div 4 = wd * ht"
    by (simp add: int32_mult_left)
  then show ?thesis
    by (simp add: create_shm_def destroy_def)
qed

lemma memset_ff_whole:
  assumes "0 \<le> wd" "0 \<le> ht" "wd * ht * 4 < 2 ^ 31" "length d = nat (wd * ht)"
  shows "memset_ff (Some d) (int32 (int32 (wd * ht) * 4)) = Inr (replicate (nat (wd * ht)) 0xFFFFFFFF)"
proof -
  have n: "0 \<le> wd * ht" using assms(1,2) by simp
  then have "int32 (wd * ht * 4) = wd * ht * 4"
    using assms(3) by (intro int32_id) linarith+
  then have "int32 (int32 (wd * ht) * 4) = wd * ht * 4"
    by (simp add: int32_mult_left)
  then show ?thesis
    using n assms(4) by (simp add: memset_ff_def)
qed

text \<open>
  Beyond \<^verbatim>\<open>int\<close> the size wraps: a 32768 x 32769 buffer is mapped with 131072 bytes, 32768
  cells.
\<close>

lemma create_shm_size_wraps:
  "map_option length
     (shm_data (fst (snd (create_shm (Shm_ok h []) 0 cv_wl_buffer_new 32768 32769 format))))
     = Some 32768"
  by (simp add: create_shm_def int32_def)

text \<open>
  C3.  When at least one of the two buffers is not busy, the first round trip ends the
  wait.  The round trip clears the busy flag of each buffer it releases and changes
  nothing else; in the state it leaves, \<open>next_buffer\<close> chooses buffer 0 if it is not busy
  and buffer 1 otherwise, and the chosen buffer is not busy.  If the chosen buffer has no
  \<^verbatim>\<open>wl_buffer\<close>, or its width or height differs from the window's, the returned window
  holds in its place a buffer created at the window's size with every byte \<open>0xff\<close>,
  whatever the shared-memory object held before, and the other buffer is untouched; if
  creating it fails an error is raised.  Otherwise the window is returned as the round
  trip left it.  The window's size is within \<^verbatim>\<open>int\<close>: \<open>width * height * 4 < 2 ^ 31\<close>.
\<close>

theorem next_buffer_picks_free_buffer:
  fixes w :: cv_wl_window and released :: "nat list"
  defines "b0 \<equiv> (if 0 \<in> set released then (fst (buffers w))\<lparr>busy := False\<rparr> else fst (buffers w))"
  defines "b1 \<equiv> (if 1 \<in> set released then (snd (buffers w))\<lparr>busy := False\<rparr> else snd (buffers w))"
  defines "i \<equiv> (if \<not> busy b0 then 0 else (1::nat))"
  defines "chosen \<equiv> (if \<not> busy b0 then b0 else b1)"
  defines "stale \<equiv> (buffer chosen = None \<or> buf_width chosen \<noteq> width w
                      \<or> buf_height chosen \<noteq> height w)"
  defines "fresh \<equiv> (\<lambda>h number.
      \<lparr>buffer = Some h,
       shm_data = Some (replicate (nat (width w * height w)) (0xFFFFFFFF :: u32)),
       busy = False, buf_width = width w, buf_height = height w,
       shm_path = ''/opencv_wl_buffer-'' @ to_string number\<rparr>)"
  assumes free: "\<not> busy (fst (buffers w)) \<or> \<not> busy (snd (buffers w))"
    and geom: "0 \<le> width w" "0 \<le> height w" "width w * height w * 4 < 2 ^ 31"
  shows "\<not> busy chosen \<and>
    (\<not> stale \<longrightarrow>
       next_buffer (released # rest) os number w =
         Some (Inr i, w\<lparr>buffers := (b0, b1)\<rparr>, number)) \<and>
    (stale \<longrightarrow>
       next_buffer (released # rest) (Shm_ok h former) number w =
         Some (Inr i,
               w\<lparr>buffers := (if \<not> busy b0 then (fresh h number, b1) else (b0, fresh h number))\<rparr>,
               int32 (number + 1))) \<and>
    (stale \<and> (\<forall>h' former'. os \<noteq> Shm_ok h' former') \<longrightarrow>
       (\<exists>e w'. next_buffer (released # rest) os number w = Some (Inl e, w', int32 (number + 1))))"
proof -
  let ?w1 = "w\<lparr>buffers := (b0, b1)\<rparr>"
  have w1: "roundtrip released w = ?w1"
    unfolding b0_def b1_def by (rule roundtrip_buffers)
  have nb: "\<not> busy chosen"
    using free unfolding chosen_def b0_def b1_def by auto
  have at: "buffers_at ?w1 i = chosen"
    by (simp add: buffers_at_def i_def chosen_def)
  have pick: "wait_free_buffer (released # rest) w = Some (i, ?w1)"
  proof (cases "busy b0")
    case False
    then show ?thesis
      by (simp add: w1 i_def is_busy_def buffers_at_def)
  next
    case True
    with nb have "\<not> busy b1" by (simp add: chosen_def)
    with True show ?thesis
      by (simp add: w1 i_def is_busy_def buffers_at_def)
  qed
  have a: "\<not> stale \<longrightarrow>
       next_buffer (released # rest) os number w = Some (Inr i, ?w1, number)"
    unfolding next_buffer_def pick stale_def by (auto simp: at Let_def)
  note c = create_shm_ok[OF geom, of h former number chosen WL_SHM_FORMAT_XRGB8888]
  have l: "length (take (nat (width w * height w)) former
        @ replicate (nat (width w * height w) - length former) 0) = nat (width w * height w)"
    by simp
  note m = memset_ff_whole[OF geom l]
  have u: "buffers_upd ?w1 i (fresh h number) =
      w\<lparr>buffers := (if \<not> busy b0 then (fresh h number, b1) else (b0, fresh h number))\<rparr>"
    by (simp add: buffers_upd_def i_def)
  have "stale \<longrightarrow>
       next_buffer (released # rest) (Shm_ok h former) number w =
         Some (Inr i, buffers_upd ?w1 i (fresh h number), int32 (number + 1))"
    unfolding next_buffer_def pick stale_def
    using nb by (auto simp: at Let_def c m fresh_def)
  then have b: "stale \<longrightarrow>
       next_buffer (released # rest) (Shm_ok h former) number w =
         Some (Inr i,
               w\<lparr>buffers := (if \<not> busy b0 then (fresh h number, b1) else (b0, fresh h number))\<rparr>,
               int32 (number + 1))"
    unfolding u .
  have d: "stale \<and> (\<forall>h' former'. os \<noteq> Shm_ok h' former') \<longrightarrow>
       (\<exists>e w'. next_buffer (released # rest) os number w = Some (Inl e, w', int32 (number + 1)))"
    unfolding next_buffer_def pick stale_def
    by (cases os) (auto simp: at Let_def create_shm_def)
  from nb a b d show ?thesis by blast
qed

lemma to_string_0: "to_string 0 = ''0''"
  by code_simp

theorem next_buffer_picks_free_buffer_witness:
  "next_buffer [Nil] (Shm_ok 7 [5, 6, 7]) 0 (cv_wl_window_new ''w'' 2 1 0) =
     Some (Inr 0,
           \<lparr>flags = 0, name = ''w'', width = 2, height = 1,
            on_mouse = \<lparr>drag = False, last_x = 0, last_y = 0, button = NONE,
                        callback = None, param = 0\<rparr>,
            buffers =
              (\<lparr>buffer = Some 7, shm_data = Some [0xFFFFFFFF, 0xFFFFFFFF], busy = False,
                buf_width = 2, buf_height = 1, shm_path = ''/opencv_wl_buffer-0''\<rparr>,
               cv_wl_buffer_new)\<rparr>,
           1) \<and>
   next_buffer [Nil] (Shm_ok 7 []) 2 demo_busy_window = Some (Inr 1, demo_busy_window, 2) \<and>
   next_buffer [0 # Nil] (Shm_ok 7 []) 2 demo_busy_window =
     Some (Inr 0,
           demo_busy_window
             \<lparr>buffers :=
                (\<lparr>buffer = Some 5, shm_data = Some [1, 2], busy = False, buf_width = 2,
                  buf_height = 1, shm_path = ''/opencv_wl_buffer-0''\<rparr>,
                 snd (buffers demo_busy_window))\<rparr>,
           2)"
proof -
  note defs = cv_wl_window_new_def cv_wl_buffer_new_def demo_busy_window_def
  have a: "next_buffer [Nil] (Shm_ok 7 [5, 6, 7]) 0 (cv_wl_window_new ''w'' 2 1 0) =
     Some (Inr 0,
           \<lparr>flags = 0, name = ''w'', width = 2, height = 1,
            on_mouse = \<lparr>drag = False, last_x = 0, last_y = 0, button = NONE,
                        callback = None, param = 0\<rparr>,
            buffers =
              (\<lparr>buffer = Some 7, shm_data = Some [0xFFFFFFFF, 0xFFFFFFFF], busy = False,
                buf_width = 2, buf_height = 1, shm_path = ''/opencv_wl_buffer-0''\<rparr>,
               cv_wl_buffer_new)\<rparr>,
           1)"
    using next_buffer_picks_free_buffer
      [where w = "cv_wl_window_new ''w'' 2 1 0" and released = "[]" and rest = "[]"
         and h = 7 and former = "[5, 6, 7]" and number = 0]
    by (simp add: defs to_string_0 numeral_2_eq_2 int32_def)
  have b: "next_buffer [Nil] (Shm_ok 7 []) 2 demo_busy_window = Some (Inr 1, demo_busy_window, 2)"
    using next_buffer_picks_free_buffer
      [where w = demo_busy_window and released = "[]" and rest = "[]"
         and os = "Shm_ok 7 []" and number = 2]
    by (simp add: defs)
  have c: "next_buffer [0 # Nil] (Shm_ok 7 []) 2 demo_busy_window =
     Some (Inr 0,
           demo_busy_window
             \<lparr>buffers :=
                (\<lparr>buffer = Some 5, shm_data = Some [1, 2], busy = False, buf_width = 2,
                  buf_height = 1, shm_path = ''/opencv_wl_buffer-0''\<rparr>,
                 snd (buffers demo_busy_window))\<rparr>,
           2)"
    using next_buffer_picks_free_buffer
      [where w = demo_busy_window and released = "[0]" and rest = "[]"
         and os = "Shm_ok 7 []" and number = 2]
    by (simp add: defs)
  from a b c show ?thesis by simp
qed

subsection \<open>Core registry\<close>

text \<open>
  C4.  The two maps do not stay consistent.  After \<open>create_window\<close> on a new core both
  maps hold the window; \<open>destroy_window\<close> of that name and \<open>destroy_all_windows\<close>
  remove it from the name map only, and the handle map still maps the address of the
  destroyed window to its name.
\<close>

theorem destroy_window_keeps_handle:
  "fst (create_window cv_wl_core_new a nm fl) = True \<and>
   map_option fst (windows (snd (create_window cv_wl_core_new a nm fl)) nm) = Some a \<and>
   handles (snd (create_window cv_wl_core_new a nm fl)) a = Some nm \<and>
   fst (destroy_window (snd (create_window cv_wl_core_new a nm fl)) nm) = True \<and>
   windows (snd (destroy_window (snd (create_window cv_wl_core_new a nm fl)) nm)) nm = None \<and>
   handles (snd (destroy_window (snd (create_window cv_wl_core_new a nm fl)) nm)) a = Some nm \<and>
   windows (destroy_all_windows (snd (create_window cv_wl_core_new a nm fl))) nm = None \<and>
   handles (destroy_all_windows (snd (create_window cv_wl_core_new a nm fl))) a = Some nm"
  by (simp add: create_window_def destroy_window_def destroy_all_windows_def cv_wl_core_new_def
      cv_wl_window_new_def)

text \<open>
  C10.  The name of a handle that is not in the handle map is the empty string, and the
  lookup adds the entry from that handle to the empty string; the name map is unchanged.
\<close>

theorem get_window_name_unknown_handle:
  "handles core h = None \<Longrightarrow>
     get_window_name core h = ([], core\<lparr>handles := (handles core)(h \<mapsto> [])\<rparr>) \<and>
     cvGetWindowName core h = ([], core\<lparr>handles := (handles core)(h \<mapsto> [])\<rparr>) \<and>
     handles (snd (get_window_name core h)) h = Some [] \<and>
     windows (snd (get_window_name core h)) = windows core"
  by (simp add: get_window_name_def cvGetWindowName_def)

theorem get_window_name_unknown_handle_witness:
  "handles cv_wl_core_new 42 = None \<and>
   get_window_name cv_wl_core_new 42 = ([], \<lparr>windows = Map.empty, handles = [42 \<mapsto> []]\<rparr>) \<and>
   cvGetWindowName cv_wl_core_new 42 = ([], \<lparr>windows = Map.empty, handles = [42 \<mapsto> []]\<rparr>)"
proof -
  have h: "handles cv_wl_core_new 42 = None" by (simp add: cv_wl_core_new_def)
  from get_window_name_unknown_handle [OF h] h show ?thesis
    by (simp add: cv_wl_core_new_def)
qed

subsection \<open>Readiness multiplexer\<close>

text \<open>
  C6.  When \<^verbatim>\<open>epoll_wait\<close> reports no event, \<open>wait\<close> with the default of 16 entries
  answers 16 zero entries for every timeout, not an empty vector.
\<close>

theorem wait_timeout_not_empty:
  "wait ep \<lparr>event_num = 0, wait_errno = e, ready = rs\<rparr> timeout 16
     = Inr (replicate 16 \<lparr>events = 0, data_fd = 0\<rparr>) \<and>
   length (replicate 16 \<lparr>events = 0, data_fd = 0\<rparr>) = 16 \<and>
   replicate 16 \<lparr>events = 0, data_fd = 0\<rparr> \<noteq> []"
  by (simp add: wait_def epoll_wait_fill_def)


subsection \<open>Mouse\<close>

lemma handle_pointer_motion_front:
  "entered_window m = front # rest \<Longrightarrow> s front = Some w \<Longrightarrow>
   handle_pointer_motion m s t x y =
     Inr (m, s(front \<mapsto> fst (mouse_motion w t x y)), snd (mouse_motion w t x y))"
  by (simp add: handle_pointer_motion_def split: prod.splits)

lemma handle_pointer_button_front:
  "entered_window m = front # rest \<Longrightarrow> s front = Some w \<Longrightarrow>
   handle_pointer_button m s t b st =
     Inr (m, s(front \<mapsto> fst (mouse_button w t b st)), snd (mouse_button w t b st))"
  by (simp add: handle_pointer_button_def split: prod.splits)

lemma handle_pointer_leave_front:
  "entered_window m = front # rest \<Longrightarrow> s win = Some w \<Longrightarrow>
   handle_pointer_leave m s win = Inr (m\<lparr>entered_window := rest\<rparr>, s, [])"
  by (simp add: handle_pointer_leave_def mouse_leave_def fun_upd_idem)

lemma handle_pointer_enter_back:
  "s win = Some w \<Longrightarrow>
   handle_pointer_enter m s win x y =
     Inr (m\<lparr>entered_window := entered_window m @ [win]\<rparr>,
          s(win \<mapsto> fst (mouse_enter w x y)), snd (mouse_enter w x y))"
  by (simp add: handle_pointer_enter_def split: prod.splits)

lemma enter_enter_motion:
  assumes "entered_window m = []" "s a = Some wa" "s b = Some wb" "a \<noteq> b"
  shows "dispatch_pointer_events [Enter a x y, Enter b x' y', Motion t mx my] (m, s, []) =
        Inr (m\<lparr>entered_window := [a, b]\<rparr>,
             s(a \<mapsto> fst (mouse_motion (fst (mouse_enter wa x y)) t mx my),
               b \<mapsto> fst (mouse_enter wb x' y')),
             snd (mouse_enter wa x y) @ snd (mouse_enter wb x' y')
               @ snd (mouse_motion (fst (mouse_enter wa x y)) t mx my))"
proof -
  let ?m1 = "m\<lparr>entered_window := entered_window m @ [a]\<rparr>"
  let ?s1 = "s(a \<mapsto> fst (mouse_enter wa x y))"
  let ?m2 = "?m1\<lparr>entered_window := entered_window ?m1 @ [b]\<rparr>"
  let ?s2 = "?s1(b \<mapsto> fst (mouse_enter wb x' y'))"
  have 1: "handle_pointer_enter m s a x y = Inr (?m1, ?s1, snd (mouse_enter wa x y))"
    using assms(2) by (rule handle_pointer_enter_back)
  have 2: "handle_pointer_enter ?m1 ?s1 b x' y' = Inr (?m2, ?s2, snd (mouse_enter wb x' y'))"
    using assms(3,4) by (intro handle_pointer_enter_back) simp
  have q: "entered_window ?m2 = a # [b]" using assms(1) by simp
  have l: "?s2 a = Some (fst (mouse_enter wa x y))" using assms(4) by simp
  have 3: "handle_pointer_motion ?m2 ?s2 t mx my =
     Inr (?m2, ?s2(a \<mapsto> fst (mouse_motion (fst (mouse_enter wa x y)) t mx my)),
          snd (mouse_motion (fst (mouse_enter wa x y)) t mx my))"
    using q l by (rule handle_pointer_motion_front)
  have s: "?s2(a \<mapsto> fst (mouse_motion (fst (mouse_enter wa x y)) t mx my))
      = s(a \<mapsto> fst (mouse_motion (fst (mouse_enter wa x y)) t mx my),
          b \<mapsto> fst (mouse_enter wb x' y'))"
    using assms(4) by (auto simp: fun_eq_iff)
  have m: "?m2 = m\<lparr>entered_window := [a, b]\<rparr>" using assms(1) by simp
  have "dispatch_pointer_events [Enter a x y, Enter b x' y', Motion t mx my] (m, s, []) =
      Inr (?m2, ?s2(a \<mapsto> fst (mouse_motion (fst (mouse_enter wa x y)) t mx my)),
           snd (mouse_enter wa x y) @ snd (mouse_enter wb x' y')
             @ snd (mouse_motion (fst (mouse_enter wa x y)) t mx my))"
    by (simp only: dispatch_pointer_events.simps handle_pointer_event.simps prod.case sum.case
        1 2 3 append_Nil append_assoc)
  then show ?thesis
    by (simp only: s m)
qed

text \<open>
  C5, as amended.  The entered windows are a first-in first-out queue: an enter event
  appends its window at the back, a leave event removes the window at the front, and a
  motion or button event goes to the window at the front, the earliest entered window
  still in the queue.  After enter(A), enter(B) on an empty queue the motion goes to A.
\<close>

theorem pointer_events_go_to_front_of_queue:
  "(entered_window m = front # rest \<and> s front = Some w \<longrightarrow>
      handle_pointer_motion m s t x y =
        Inr (m, s(front \<mapsto> fst (mouse_motion w t x y)), snd (mouse_motion w t x y)) \<and>
      handle_pointer_button m s t btn st =
        Inr (m, s(front \<mapsto> fst (mouse_button w t btn st)), snd (mouse_button w t btn st))) \<and>
   (entered_window m = front # rest \<and> s win = Some w' \<longrightarrow>
      handle_pointer_leave m s win = Inr (m\<lparr>entered_window := rest\<rparr>, s, [])) \<and>
   (s win = Some w' \<longrightarrow>
      handle_pointer_enter m s win x y =
        Inr (m\<lparr>entered_window := entered_window m @ [win]\<rparr>,
             s(win \<mapsto> fst (mouse_enter w' x y)), snd (mouse_enter w' x y))) \<and>
   (entered_window m = [] \<and> s a = Some wa \<and> s b = Some wb \<and> a \<noteq> b \<longrightarrow>
      dispatch_pointer_events [Enter a x y, Enter b x' y', Motion t mx my] (m, s, []) =
        Inr (m\<lparr>entered_window := [a, b]\<rparr>,
             s(a \<mapsto> fst (mouse_motion (fst (mouse_enter wa x y)) t mx my),
               b \<mapsto> fst (mouse_enter wb x' y')),
             snd (mouse_enter wa x y) @ snd (mouse_enter wb x' y')
               @ snd (mouse_motion (fst (mouse_enter wa x y)) t mx my)))"
  by (intro conjI impI; (elim conjE)?;
      (rule handle_pointer_motion_front handle_pointer_button_front handle_pointer_leave_front
         handle_pointer_enter_back enter_enter_motion; assumption))

lemma demo_store_1:
  "demo_store 1 = Some (set_mouse_callback (cv_wl_window_new ''A'' default_width default_height 0) (Some 100) 11)"
  by (simp add: demo_store_def)

lemma demo_store_2:
  "demo_store 2 = Some (set_mouse_callback (cv_wl_window_new ''B'' default_width default_height 0) (Some 200) 22)"
  by (simp add: demo_store_def)

lemmas window_defs = set_mouse_callback_def cv_wl_window_new_def mouse_enter_def
  mouse_motion_def mouse_button_def call_mouse_callback_def Let_def

text \<open>
  C5 as stated fails: after enter(A), enter(B) the motion calls the callback of A
  (callback 100 with parameter 11), not that of B.
\<close>

theorem motion_after_two_enters_counterexample:
  "\<not> isl (dispatch_pointer_events [Enter 1 0 0, Enter 2 0 0, Motion 0 5 6]
            (cv_wl_mouse_new, demo_store, [])) \<and>
   snd (snd (projr (dispatch_pointer_events [Enter 1 0 0, Enter 2 0 0, Motion 0 5 6]
            (cv_wl_mouse_new, demo_store, [])))) =
     [(100, EVENT_MOUSEMOVE, 0, 0, 0, 11), (200, EVENT_MOUSEMOVE, 0, 0, 0, 22),
      (100, EVENT_MOUSEMOVE, 5, 6, 0, 11)] \<and>
   (100, EVENT_MOUSEMOVE, 5, 6, 0, 11) \<noteq> (200 :: nat, EVENT_MOUSEMOVE, 5 :: int, 6 :: int, 0 :: int, 22 :: nat)"
  by (simp add: handle_pointer_enter_def handle_pointer_motion_def cv_wl_mouse_new_def
      demo_store_def window_defs)

theorem pointer_events_go_to_front_of_queue_witness:
  "entered_window cv_wl_mouse_new = [] \<and>
   \<not> isl (dispatch_pointer_events [Enter 1 0 0, Enter 2 0 0, Motion 0 5 6]
            (cv_wl_mouse_new, demo_store, [])) \<and>
   fst (projr (dispatch_pointer_events [Enter 1 0 0, Enter 2 0 0, Motion 0 5 6]
            (cv_wl_mouse_new, demo_store, []))) = \<lparr>entered_window = [1, 2]\<rparr> \<and>
   snd (snd (projr (dispatch_pointer_events [Enter 1 0 0, Enter 2 0 0, Motion 0 5 6]
            (cv_wl_mouse_new, demo_store, [])))) =
     [(100, EVENT_MOUSEMOVE, 0, 0, 0, 11), (200, EVENT_MOUSEMOVE, 0, 0, 0, 22),
      (100, EVENT_MOUSEMOVE, 5, 6, 0, 11)]"
proof -
  have e: "entered_window cv_wl_mouse_new = []" by (simp add: cv_wl_mouse_new_def)
  have n: "(1::nat) \<noteq> 2" by simp
  from pointer_events_go_to_front_of_queue
    [where m = cv_wl_mouse_new and s = demo_store and a = 1 and b = 2
       and wa = "set_mouse_callback (cv_wl_window_new ''A'' default_width default_height 0) (Some 100) 11"
       and wb = "set_mouse_callback (cv_wl_window_new ''B'' default_width default_height 0) (Some 200) 22"
       and x = 0 and y = 0 and x' = 0 and y' = 0 and t = 0 and mx = 5 and my = 6]
    e n demo_store_1 demo_store_2
  have "dispatch_pointer_events [Enter 1 0 0, Enter 2 0 0, Motion 0 5 6]
            (cv_wl_mouse_new, demo_store, []) =
        Inr (cv_wl_mouse_new\<lparr>entered_window := [1, 2]\<rparr>,
             demo_store(1 \<mapsto> fst (mouse_motion (fst (mouse_enter
                 (set_mouse_callback (cv_wl_window_new ''A'' default_width default_height 0) (Some 100) 11) 0 0)) 0 5 6),
               2 \<mapsto> fst (mouse_enter (set_mouse_callback (cv_wl_window_new ''B'' default_width default_height 0) (Some 200) 22) 0 0)),
             snd (mouse_enter (set_mouse_callback (cv_wl_window_new ''A'' default_width default_height 0) (Some 100) 11) 0 0)
               @ snd (mouse_enter (set_mouse_callback (cv_wl_window_new ''B'' default_width default_height 0) (Some 200) 22) 0 0)
               @ snd (mouse_motion (fst (mouse_enter
                 (set_mouse_callback (cv_wl_window_new ''A'' default_width default_height 0) (Some 100) 11) 0 0)) 0 5 6))"
    by blast
  then show ?thesis
    by (simp add: e window_defs cv_wl_mouse_new_def)
qed


subsection \<open>Event loop\<close>

lemma run_once_wait_trace:
  "\<exists>tr'. snd (snd (run_once_wait lib t timeout d tr)) = tr @ Wait timeout # tr' \<and>
         (\<forall>x. Wait x \<notin> set tr')"
  unfolding run_once_wait_def Let_def
  by (simp split: sum.splits prod.splits)




text \<open>
  C7.  Let the first flush of \<open>run_once\<close> fail.  With \<^verbatim>\<open>errno\<close> equal to \<^verbatim>\<open>EAGAIN\<close> the
  registration is modified to an interest that contains \<^verbatim>\<open>EPOLLOUT\<close> and, once
  \<^verbatim>\<open>epoll_ctl\<close> has accepted it, the wait with the given timeout is the next call.
  With any other \<^verbatim>\<open>errno\<close> the result is 0 and no wait is made.
\<close>

theorem run_once_flush_failure:
  assumes "dispatch_events lib (pending t) d = Inr d1" and "flush_ret t < 0"
  shows
   "(flush_errno t = EAGAIN \<and> 0 \<le> fst (modify_os t) \<longrightarrow>
       (\<exists>tr'. snd (snd (run_once lib t timeout d)) =
          [Dispatch_pending, Flush,
           Modify (display_fd d1) (EPOLLIN OR EPOLLOUT OR EPOLLERR OR EPOLLHUP),
           Wait timeout] @ tr') \<and>
       (EPOLLIN OR EPOLLOUT OR EPOLLERR OR EPOLLHUP) AND EPOLLOUT = EPOLLOUT \<and>
       run_once lib t timeout d =
         run_once_wait lib t timeout d1
           [Dispatch_pending, Flush,
            Modify (display_fd d1) (EPOLLIN OR EPOLLOUT OR EPOLLERR OR EPOLLHUP)]) \<and>
    (flush_errno t \<noteq> EAGAIN \<longrightarrow>
       run_once lib t timeout d = (Inr 0, d1, [Dispatch_pending, Flush]) \<and>
       (\<forall>x. Wait x \<notin> set (snd (snd (run_once lib t timeout d)))))"
proof (intro conjI impI)
  assume a: "flush_errno t = EAGAIN \<and> 0 \<le> fst (modify_os t)"
  let ?tr = "[Dispatch_pending, Flush,
            Modify (display_fd d1) (EPOLLIN OR EPOLLOUT OR EPOLLERR OR EPOLLHUP)]"
  from a have m: "modify (poller d1) (display_fd d1)
      (EPOLLIN OR EPOLLOUT OR EPOLLERR OR EPOLLHUP) (modify_os t) = Inr ()"
    by (simp add: modify_def ctl_def)
  show r: "run_once lib t timeout d = run_once_wait lib t timeout d1 ?tr"
    using assms a by (simp add: run_once_def m)
  from run_once_wait_trace[of lib t timeout d1 ?tr]
  show "\<exists>tr'. snd (snd (run_once lib t timeout d)) =
          [Dispatch_pending, Flush,
           Modify (display_fd d1) (EPOLLIN OR EPOLLOUT OR EPOLLERR OR EPOLLHUP),
           Wait timeout] @ tr'"
    unfolding r by auto
  show "(EPOLLIN OR EPOLLOUT OR EPOLLERR OR EPOLLHUP) AND EPOLLOUT = EPOLLOUT"
    by (simp add: EPOLLIN_def EPOLLOUT_def EPOLLERR_def EPOLLHUP_def)
next
  assume "flush_errno t \<noteq> EAGAIN"
  then show r: "run_once lib t timeout d = (Inr 0, d1, [Dispatch_pending, Flush])"
    using assms by (simp add: run_once_def)
  show "\<forall>x. Wait x \<notin> set (snd (snd (run_once lib t timeout d)))"
    unfolding r by simp
qed


theorem run_once_flush_failure_witness:
  "snd (snd (run_once demo_lib (demo_tick\<lparr>flush_ret := - 1, flush_errno := EAGAIN\<rparr>) 7 demo_display))
     = [Dispatch_pending, Flush, Modify 3 (EPOLLIN OR EPOLLOUT OR EPOLLERR OR EPOLLHUP), Wait 7,
        Dispatch] \<and>
   run_once demo_lib (demo_tick\<lparr>flush_ret := - 1, flush_errno := 32\<rparr>) 7 demo_display
     = (Inr 0, demo_display, [Dispatch_pending, Flush])"
proof -
  have p: "dispatch_events demo_lib (pending (demo_tick\<lparr>flush_ret := - 1, flush_errno := EAGAIN\<rparr>))
      demo_display = Inr demo_display"
    and p': "dispatch_events demo_lib (pending (demo_tick\<lparr>flush_ret := - 1, flush_errno := 32\<rparr>))
      demo_display = Inr demo_display"
    by (simp_all add: demo_tick_def)
  have f: "flush_ret (demo_tick\<lparr>flush_ret := - 1, flush_errno := EAGAIN\<rparr>) < 0"
    and f': "flush_ret (demo_tick\<lparr>flush_ret := - 1, flush_errno := 32\<rparr>) < 0"
    by simp_all
  have a: "flush_errno (demo_tick\<lparr>flush_ret := - 1, flush_errno := EAGAIN\<rparr>) = EAGAIN \<and>
      0 \<le> fst (modify_os (demo_tick\<lparr>flush_ret := - 1, flush_errno := EAGAIN\<rparr>))"
    by (simp add: demo_tick_def)
  have b: "flush_errno (demo_tick\<lparr>flush_ret := - 1, flush_errno := 32\<rparr>) \<noteq> EAGAIN"
    by (simp add: EAGAIN_def)
  from run_once_flush_failure [OF p f, where timeout = 7] a
  have "run_once demo_lib (demo_tick\<lparr>flush_ret := - 1, flush_errno := EAGAIN\<rparr>) 7 demo_display =
      run_once_wait demo_lib (demo_tick\<lparr>flush_ret := - 1, flush_errno := EAGAIN\<rparr>) 7 demo_display
        [Dispatch_pending, Flush,
         Modify (display_fd demo_display) (EPOLLIN OR EPOLLOUT OR EPOLLERR OR EPOLLHUP)]"
    by blast
  then have 1: "snd (snd (run_once demo_lib (demo_tick\<lparr>flush_ret := - 1, flush_errno := EAGAIN\<rparr>) 7
        demo_display))
     = [Dispatch_pending, Flush, Modify 3 (EPOLLIN OR EPOLLOUT OR EPOLLERR OR EPOLLHUP), Wait 7,
        Dispatch]"
    by (simp add: run_once_wait_def wait_def epoll_wait_fill_def demo_tick_def demo_display_def
        demo_lib_def demo_kb_def dispatch_event_def handle_kb_key_def EPOLLIN_def EPOLLOUT_def
        WL_KEYBOARD_KEY_STATE_RELEASED_def Let_def)
  from run_once_flush_failure [OF p' f', where timeout = 7] b
  have 2: "run_once demo_lib (demo_tick\<lparr>flush_ret := - 1, flush_errno := 32\<rparr>) 7 demo_display
     = (Inr 0, demo_display, [Dispatch_pending, Flush])"
    by blast
  from 1 2 show ?thesis by simp
qed





















end
